theory Spec2Isabelle
  imports Main "HOL-Library.Sublist"
begin

section \<open>Python strings\<close>

text \<open>
  A Python \<^verbatim>\<open>str\<close> is modelled as a \<^typ>\<open>string\<close>: a list of characters, each a code point
  below 256. Lengths count code points, as \<^verbatim>\<open>len\<close> does.
\<close>

text \<open>\<^verbatim>\<open>sub in s\<close>: \<open>sub\<close> occurs in \<open>s\<close> as a contiguous run.\<close>

fun py_in :: "string \<Rightarrow> string \<Rightarrow> bool" where
  "py_in sub [] = (sub = [])"
| "py_in sub (c # cs) = (if prefix sub (c # cs) then True else py_in sub cs)"

text \<open>
  \<^verbatim>\<open>s.partition(sep)\<close> for a non-empty separator: the text before the first (leftmost)
  occurrence of \<open>sep\<close> and the text after it, or \<open>None\<close> when \<open>sep\<close> does not occur.
\<close>

fun py_partition :: "string \<Rightarrow> string \<Rightarrow> (string \<times> string) option" where
  "py_partition sep [] = None"
| "py_partition sep (c # cs) =
     (if prefix sep (c # cs) then Some ([], drop (length sep) (c # cs))
      else (case py_partition sep cs of
              None \<Rightarrow> None
            | Some (b, a) \<Rightarrow> Some (c # b, a)))"

text \<open>The text before the first occurrence of \<open>sep\<close>: all of \<open>s\<close> when there is none.\<close>

definition before_first :: "string \<Rightarrow> string \<Rightarrow> string" where
  "before_first sep s = (case py_partition sep s of None \<Rightarrow> s | Some (b, a) \<Rightarrow> b)"

text \<open>
  The segments of \<^verbatim>\<open>s.split(sep)\<close> for a non-empty separator: the scan goes left to right
  and resumes after each occurrence, so occurrences never overlap.
\<close>

function split_segments :: "string \<Rightarrow> string \<Rightarrow> string list" where
  "split_segments sep s =
     (if sep = [] then [s]
      else (case py_partition sep s of
              None \<Rightarrow> [s]
            | Some (b, a) \<Rightarrow> b # split_segments sep a))"
  by pat_completeness auto
termination
proof (relation "measure (\<lambda>(sep, s). length s)")
  show "wf (measure (\<lambda>(sep, s). length s))" by simp
next
  fix sep s :: string and x2 b a
  assume ne: "sep \<noteq> []" and p: "py_partition sep s = Some x2" and x: "(b, a) = x2"
  have "\<And>b a. py_partition sep s = Some (b, a) \<Longrightarrow> length a < length s"
  proof (induction s)
    case Nil
    then show ?case by simp
  next
    case (Cons c cs)
    show ?case
    proof (cases "prefix sep (c # cs)")
      case True
      with Cons.prems ne show ?thesis by (cases sep) auto
    next
      case False
      with Cons.prems obtain b' where "py_partition sep cs = Some (b', a)"
        by (auto split: option.splits)
      with Cons.IH have "length a < length cs" by blast
      then show ?thesis by simp
    qed
  qed
  with p x show "((sep, a), (sep, s)) \<in> measure (\<lambda>(sep, s). length s)" by auto
qed

text \<open>
  Python exceptions: the class that an \<^verbatim>\<open>except\<close> clause tests, and \<^verbatim>\<open>str(e)\<close>. A class
  stands for itself and its subclasses; \<open>OtherException\<close> is any other subclass of
  \<^verbatim>\<open>Exception\<close>. The message texts of the built-in errors are those of CPython 3.12; no
  theorem of a claim depends on their wording beyond the class.
\<close>

datatype exn_class =
    JSONDecodeError | ValueError | IndexError | KeyError | TypeError | AttributeError
  | UnboundLocalError | OverflowError | OtherException

type_synonym exn = "exn_class \<times> string"

text \<open>\<^verbatim>\<open>s.split(sep)\<close>: an empty separator raises \<^verbatim>\<open>ValueError\<close>.\<close>

definition py_split :: "string \<Rightarrow> string \<Rightarrow> exn + string list" where
  "py_split sep s =
     (if sep = [] then Inl (ValueError, ''empty separator'') else Inr (split_segments sep s))"

text \<open>\<^verbatim>\<open>xs[i]\<close> for an index \<open>i \<ge> 0\<close>: out of range raises \<^verbatim>\<open>IndexError\<close>.\<close>

definition py_index :: "'a list \<Rightarrow> nat \<Rightarrow> exn + 'a" where
  "py_index xs i =
     (if i < length xs then Inr (xs ! i) else Inl (IndexError, ''list index out of range''))"

text \<open>
  \<^verbatim>\<open>str.isspace\<close> on one code point below 256: tab to carriage return, the four
  separators U+001C to U+001F, the space, U+0085 and the no-break space U+00A0.
\<close>

definition isspace :: "char \<Rightarrow> bool" where
  "isspace c =
     (let n = (of_char c :: nat)
      in (9 \<le> n \<and> n \<le> 13) \<or> (28 \<le> n \<and> n \<le> 32) \<or> n = 133 \<or> n = 160)"

text \<open>\<^verbatim>\<open>s.strip()\<close>: whitespace removed at both ends.\<close>

definition py_strip :: "string \<Rightarrow> string" where
  "py_strip s = rev (dropWhile isspace (rev (dropWhile isspace s)))"


section \<open>Python values\<close>

text \<open>
  A \<^verbatim>\<open>float\<close> that came from a decimal literal is kept as that decimal: sign, digits and
  power of ten (\<open>Finite neg m e\<close> is \<open>\<plusminus> m * 10 ^ e\<close>). This is the value Python holds, and
  its \<^verbatim>\<open>repr\<close>, for literals of at most 15 significant digits inside the range of a
  double; longer literals are rounded by Python and not by this model.
\<close>

datatype pyfloat = Finite bool nat int | Infinite bool | NaN

text \<open>
  The values \<^verbatim>\<open>json.loads\<close> can return. A \<^verbatim>\<open>dict\<close> keeps insertion order, so it is an
  association list (with distinct keys).
\<close>

datatype pyval =
    PNone
  | PBool bool
  | PInt int
  | PFloat pyfloat
  | PStr string
  | PList "pyval list"
  | PDict "(string \<times> pyval) list"

text \<open>\<^verbatim>\<open>sep.join(xs)\<close>.\<close>

fun py_join :: "string \<Rightarrow> string list \<Rightarrow> string" where
  "py_join sep [] = []"
| "py_join sep [x] = x"
| "py_join sep (x # y # ys) = x @ sep @ py_join sep (y # ys)"

text \<open>Decimal digits of a natural number, and two lower-case hexadecimal digits of a code point.\<close>

function nat_digits :: "nat \<Rightarrow> string" where
  "nat_digits n =
     (if n < 10 then [''0123456789'' ! n]
      else nat_digits (n div 10) @ [''0123456789'' ! (n mod 10)])"
  by pat_completeness auto
termination
  by (relation "measure id") auto

definition int_str :: "int \<Rightarrow> string" where
  "int_str i = (if i < 0 then CHR ''-'' # nat_digits (nat (- i)) else nat_digits (nat i))"

definition hex2 :: "nat \<Rightarrow> string" where
  "hex2 n = [''0123456789abcdef'' ! ((n div 16) mod 16), ''0123456789abcdef'' ! (n mod 16)]"

text \<open>Trailing zeros of the digits move into the power of ten; zero has power 0.\<close>

function strip_zeros :: "nat \<Rightarrow> int \<Rightarrow> nat \<times> int" where
  "strip_zeros m e =
     (if m = 0 then (0, 0)
      else if m mod 10 = 0 then strip_zeros (m div 10) (e + 1)
      else (m, e))"
  by pat_completeness auto
termination
  by (relation "measure (\<lambda>(m, e). m)") auto

text \<open>
  \<^verbatim>\<open>repr\<close> of a float: the shortest digits, in positional notation when the decimal point
  falls in \<open>-4 < decpt \<le> 16\<close> (with \<^verbatim>\<open>.0\<close> added to a whole number), else with an exponent of
  at least two digits.
\<close>

definition float_repr :: "pyfloat \<Rightarrow> string" where
  "float_repr x =
     (case x of
        NaN \<Rightarrow> ''nan''
      | Infinite neg \<Rightarrow> (if neg then ''-inf'' else ''inf'')
      | Finite neg m0 e0 \<Rightarrow>
          (let (m, e) = strip_zeros m0 e0;
               ds = nat_digits m;
               n = int (length ds);
               decpt = n + e;
               body =
                 (if m = 0 then ''0.0''
                  else if decpt \<le> - 4 \<or> 16 < decpt then
                    hd ds # (if 1 < n then CHR ''.'' # tl ds else [])
                      @ [CHR ''e'', if decpt - 1 < 0 then CHR ''-'' else CHR ''+'']
                      @ (let x = nat_digits (nat \<bar>decpt - 1\<bar>)
                         in if length x < 2 then CHR ''0'' # x else x)
                  else if decpt \<le> 0 then ''0.'' @ replicate (nat (- decpt)) CHR ''0'' @ ds
                  else if n \<le> decpt then ds @ replicate (nat (decpt - n)) CHR ''0'' @ ''.0''
                  else take (nat decpt) ds @ CHR ''.'' # drop (nat decpt) ds)
           in if neg then CHR ''-'' # body else body))"

text \<open>
  \<^verbatim>\<open>repr\<close> of a \<^verbatim>\<open>str\<close>: single quotes, unless the text has a single quote and no
  double quote; the quote and the backslash are escaped, tab, newline and carriage return
  are written \<^verbatim>\<open>\t \n \r\<close>, and every other code point that is not printable (below the
  space, U+007F to U+00A0, U+00AD) is written \<^verbatim>\<open>\xhh\<close>.
\<close>

definition repr_char :: "char \<Rightarrow> char \<Rightarrow> string" where
  "repr_char q c =
     (let n = (of_char c :: nat)
      in if c = q \<or> c = CHR 0x5C then [CHR 0x5C, c]
         else if n = 9 then [CHR 0x5C, CHR ''t'']
         else if n = 10 then [CHR 0x5C, CHR ''n'']
         else if n = 13 then [CHR 0x5C, CHR ''r'']
         else if n < 32 \<or> (127 \<le> n \<and> n \<le> 160) \<or> n = 173 then [CHR 0x5C, CHR ''x''] @ hex2 n
         else [c])"

definition str_repr :: "string \<Rightarrow> string" where
  "str_repr s =
     (let q = (if CHR 0x27 \<in> set s \<and> CHR 0x22 \<notin> set s then CHR 0x22 else CHR 0x27)
      in q # concat (map (repr_char q) s) @ [q])"

text \<open>\<^verbatim>\<open>repr(v)\<close>, and \<^verbatim>\<open>str(v)\<close>, which is what an f-string field \<^verbatim>\<open>{v}\<close> inserts.\<close>

fun py_repr :: "pyval \<Rightarrow> string" where
  "py_repr PNone = ''None''"
| "py_repr (PBool b) = (if b then ''True'' else ''False'')"
| "py_repr (PInt i) = int_str i"
| "py_repr (PFloat x) = float_repr x"
| "py_repr (PStr s) = str_repr s"
| "py_repr (PList xs) = ''['' @ py_join '', '' (map py_repr xs) @ '']''"
| "py_repr (PDict kvs) =
     ''{'' @ py_join '', '' (map (\<lambda>kv. str_repr (fst kv) @ '': '' @ py_repr (snd kv)) kvs) @ ''}''"

definition py_str :: "pyval \<Rightarrow> string" where
  "py_str v = (case v of PStr s \<Rightarrow> s | _ \<Rightarrow> py_repr v)"

text \<open>\<^verbatim>\<open>isinstance(v, (int, float))\<close> for a value that is not a \<^verbatim>\<open>bool\<close>: \<open>v\<close> is a number.\<close>

definition py_is_number :: "pyval \<Rightarrow> bool" where
  "py_is_number v = (case v of PInt i \<Rightarrow> True | PFloat x \<Rightarrow> True | _ \<Rightarrow> False)"

text \<open>The name Python prints for the type of a value.\<close>

fun type_name :: "pyval \<Rightarrow> string" where
  "type_name PNone = ''NoneType''"
| "type_name (PBool b) = ''bool''"
| "type_name (PInt i) = ''int''"
| "type_name (PFloat x) = ''float''"
| "type_name (PStr s) = ''str''"
| "type_name (PList xs) = ''list''"
| "type_name (PDict kvs) = ''dict''"

text \<open>\<^verbatim>\<open>key in v\<close> for a string key: defined on dicts, lists and strings only.\<close>

definition py_contains :: "string \<Rightarrow> pyval \<Rightarrow> exn + bool" where
  \<open>py_contains key v =
     (case v of
        PDict kvs \<Rightarrow> Inr (key \<in> set (map fst kvs))
      | PList xs \<Rightarrow> Inr (PStr key \<in> set xs)
      | PStr s \<Rightarrow> Inr (py_in key s)
      | _ \<Rightarrow> Inl (TypeError, ''argument of type '' @ str_repr (type_name v) @ '' is not iterable''))\<close>

text \<open>The truth value of a value, as \<^verbatim>\<open>if v:\<close> tests it.\<close>

fun py_truthy :: "pyval \<Rightarrow> bool" where
  "py_truthy PNone = False"
| "py_truthy (PBool b) = b"
| "py_truthy (PInt i) = (i \<noteq> 0)"
| "py_truthy (PFloat x) = (case x of Finite neg m e \<Rightarrow> m \<noteq> 0 | Infinite neg \<Rightarrow> True | NaN \<Rightarrow> True)"
| "py_truthy (PStr s) = (s \<noteq> [])"
| "py_truthy (PList xs) = (xs \<noteq> [])"
| "py_truthy (PDict kvs) = (kvs \<noteq> [])"

text \<open>
  The items a \<^verbatim>\<open>for\<close> loop (or \<^verbatim>\<open>enumerate\<close>) goes through: the elements of a list, the
  characters of a string, the keys of a dict; any other value is not iterable.
\<close>

definition py_iter :: "pyval \<Rightarrow> exn + pyval list" where
  "py_iter v =
     (case v of
        PList xs \<Rightarrow> Inr xs
      | PStr s \<Rightarrow> Inr (map (\<lambda>c. PStr [c]) s)
      | PDict kvs \<Rightarrow> Inr (map (\<lambda>kv. PStr (fst kv)) kvs)
      | _ \<Rightarrow> Inl (TypeError, str_repr (type_name v) @ '' object is not iterable''))"

text \<open>
  An \<^verbatim>\<open>int\<close> converts to a \<^verbatim>\<open>float\<close> when it rounds to a finite double: when its absolute
  value is below \<open>2 ^ 1024 - 2 ^ 970\<close>.
\<close>

definition float_overflow_bound :: int where
  "float_overflow_bound = 2 ^ 1024 - 2 ^ 970"

text \<open>
  An f-string field with the format \<^verbatim>\<open>:.2f\<close>, as far as it can raise: a number is
  formatted (an \<^verbatim>\<open>int\<close> is converted to a \<^verbatim>\<open>float\<close> first), a string has no format code
  \<^verbatim>\<open>f\<close>, and the other types take no format string. The digits it prints are shown in a
  widget only and are not modelled.
\<close>

definition format_2f :: "pyval \<Rightarrow> exn + unit" where
  \<open>format_2f v =
     (case v of
        PInt i \<Rightarrow>
          if \<bar>i\<bar> < float_overflow_bound then Inr ()
          else Inl (OverflowError, ''int too large to convert to float'')
      | PBool b \<Rightarrow> Inr ()
      | PFloat x \<Rightarrow> Inr ()
      | PStr s \<Rightarrow>
          Inl (ValueError,
               ''Unknown format code '' @ str_repr ''f'' @ '' for object of type '' @ str_repr ''str'')
      | _ \<Rightarrow> Inl (TypeError,
                 ''unsupported format string passed to '' @ type_name v @ ''.__format__''))\<close>

text \<open>\<^verbatim>\<open>v[key]\<close> for a string key.\<close>

definition py_getitem :: "pyval \<Rightarrow> string \<Rightarrow> exn + pyval" where
  \<open>py_getitem v key =
     (case v of
        PDict kvs \<Rightarrow> (case map_of kvs key of Some x \<Rightarrow> Inr x | None \<Rightarrow> Inl (KeyError, str_repr key))
      | PList xs \<Rightarrow> Inl (TypeError, ''list indices must be integers or slices, not str'')
      | PStr s \<Rightarrow> Inl (TypeError, ''string indices must be integers'')
      | _ \<Rightarrow> Inl (TypeError, str_repr (type_name v) @ '' object is not subscriptable''))\<close>

text \<open>\<^verbatim>\<open>v.get(key, default)\<close>: only a dict has the method.\<close>

definition py_get :: "pyval \<Rightarrow> string \<Rightarrow> pyval \<Rightarrow> exn + pyval" where
  \<open>py_get v key dflt =
     (case v of
        PDict kvs \<Rightarrow> Inr (case map_of kvs key of Some x \<Rightarrow> x | None \<Rightarrow> dflt)
      | _ \<Rightarrow> Inl (AttributeError,
                 str_repr (type_name v) @ '' object has no attribute '' @ str_repr ''get''))\<close>


section \<open>The JSON library\<close>

text \<open>
  \<^verbatim>\<open>json.loads\<close> and \<^verbatim>\<open>json.dumps\<close> belong to Python's standard library, not to the
  repository. The pipeline below takes the decoder as a parameter, so what is proved of the
  pipeline in general holds for every decoder. \<open>json_loads\<close> and \<open>json_dumps\<close> are a reference
  model of the library, written from its documented grammar (RFC 8259, plus the constants
  \<^verbatim>\<open>NaN\<close>, \<^verbatim>\<open>Infinity\<close>, \<^verbatim>\<open>-Infinity\<close>), used to evaluate the pipeline on concrete replies.
  Outside the model: an escape \<^verbatim>\<open>\uXXXX\<close> of a code point above 255 (there is no such
  character here; \<open>scanstring\<close> rejects it), the rounding of long float literals, the
  interpreter's recursion limit, and the wording of the decoder's error messages.
\<close>

definition json_ws :: "char \<Rightarrow> bool" where
  "json_ws c = (c = CHR '' '' \<or> c = CHR 0x09 \<or> c = CHR 0x0A \<or> c = CHR 0x0D)"

definition skip_ws :: "string \<Rightarrow> string" where
  "skip_ws s = dropWhile json_ws s"

definition is_digit :: "char \<Rightarrow> bool" where
  "is_digit c = (c \<in> set ''0123456789'')"

definition digit_val :: "char \<Rightarrow> nat" where
  "digit_val c = (of_char c :: nat) - 48"

definition digits_val :: "string \<Rightarrow> nat" where
  "digits_val ds = foldl (\<lambda>a c. 10 * a + digit_val c) 0 ds"

definition hex_digit :: "char \<Rightarrow> nat option" where
  "hex_digit c =
     (let n = (of_char c :: nat)
      in if 48 \<le> n \<and> n \<le> 57 then Some (n - 48)
         else if 97 \<le> n \<and> n \<le> 102 then Some (n - 87)
         else if 65 \<le> n \<and> n \<le> 70 then Some (n - 55)
         else None)"

text \<open>The four hexadecimal digits of an escape \<^verbatim>\<open>\uXXXX\<close>.\<close>

definition hex4 :: "string \<Rightarrow> nat option" where
  "hex4 s =
     (case map hex_digit s of
        [Some a, Some b, Some c, Some d] \<Rightarrow> Some (((a * 16 + b) * 16 + c) * 16 + d)
      | _ \<Rightarrow> None)"

definition unescape :: "char \<Rightarrow> char option" where
  "unescape e =
     (if e = CHR 0x22 \<or> e = CHR 0x5C \<or> e = CHR ''/'' then Some e
      else if e = CHR ''b'' then Some (CHR 0x08)
      else if e = CHR ''f'' then Some (CHR 0x0C)
      else if e = CHR ''n'' then Some (CHR 0x0A)
      else if e = CHR ''r'' then Some (CHR 0x0D)
      else if e = CHR ''t'' then Some (CHR 0x09)
      else None)"

text \<open>
  A string literal, read from just after its opening quote: the decoded text and the input
  after the closing quote. A raw control character, an unknown escape and a missing closing
  quote are errors.
\<close>

function scanstring :: "string \<Rightarrow> (string \<times> string) option" where
  "scanstring [] = None"
| "scanstring (c # cs) =
     (if c = CHR 0x22 then Some ([], cs)
      else if c = CHR 0x5C then
        (case cs of
           [] \<Rightarrow> None
         | e # r \<Rightarrow>
             if e = CHR ''u'' then
               (case hex4 (take 4 r) of
                  None \<Rightarrow> None
                | Some u \<Rightarrow>
                    if u < 256 then
                      (case scanstring (drop 4 r) of
                         None \<Rightarrow> None
                       | Some (x, rest) \<Rightarrow> Some (char_of u # x, rest))
                    else None)
             else
               (case unescape e of
                  None \<Rightarrow> None
                | Some x \<Rightarrow>
                    (case scanstring r of
                       None \<Rightarrow> None
                     | Some (y, rest) \<Rightarrow> Some (x # y, rest))))
      else if (of_char c :: nat) < 32 then None
      else (case scanstring cs of
              None \<Rightarrow> None
            | Some (x, rest) \<Rightarrow> Some (c # x, rest)))"
  by pat_completeness auto
termination
  by (relation "measure length") auto

text \<open>
  A number, by the library's pattern \<^verbatim>\<open>-?(0|[1-9]\d*)(\.\d+)?([eE][-+]?\d+)?\<close>: an \<^verbatim>\<open>int\<close>
  when it has neither fraction nor exponent, else a \<^verbatim>\<open>float\<close>.
\<close>

definition scan_number :: "string \<Rightarrow> (pyval \<times> string) option" where
  "scan_number s =
     (let (neg, s1) = (case s of [] \<Rightarrow> (False, s) | c # r \<Rightarrow> if c = CHR ''-'' then (True, r) else (False, s));
          ip = (case s1 of [] \<Rightarrow> [] | c # r \<Rightarrow> if c = CHR ''0'' then [c] else takeWhile is_digit s1);
          s2 = drop (length ip) s1;
          fp = (case s2 of [] \<Rightarrow> [] | c # r \<Rightarrow> if c = CHR ''.'' then takeWhile is_digit r else []);
          s3 = (if fp = [] then s2 else drop (Suc (length fp)) s2);
          (eneg, s4) =
            (case s3 of
               [] \<Rightarrow> (False, [])
             | c # r \<Rightarrow>
                 if c = CHR ''e'' \<or> c = CHR ''E'' then
                   (case r of
                      [] \<Rightarrow> (False, [])
                    | d # r' \<Rightarrow> if d = CHR ''-'' then (True, r') else if d = CHR ''+'' then (False, r') else (False, r))
                 else (False, []));
          ep = takeWhile is_digit s4;
          rest = (if ep = [] then s3 else drop (length ep) s4)
      in if ip = [] then None
         else if fp = [] \<and> ep = [] then
           Some (PInt (if neg then - int (digits_val ip) else int (digits_val ip)), rest)
         else
           (let ex = (if eneg then - int (digits_val ep) else int (digits_val ep)) - int (length fp);
                (m, e) = strip_zeros (digits_val (ip @ fp)) ex
            in Some (PFloat (Finite neg m e), rest)))"

text \<open>\<^verbatim>\<open>d[key] = v\<close>: a key already present keeps its place and takes the new value.\<close>

fun dict_set :: "(string \<times> pyval) list \<Rightarrow> string \<Rightarrow> pyval \<Rightarrow> (string \<times> pyval) list" where
  "dict_set [] key v = [(key, v)]"
| "dict_set (kv # kvs) key v = (if fst kv = key then (key, v) # kvs else kv # dict_set kvs key v)"

definition dict_of_pairs :: "(string \<times> pyval) list \<Rightarrow> (string \<times> pyval) list" where
  "dict_of_pairs kvs = foldl (\<lambda>d kv. dict_set d (fst kv) (snd kv)) [] kvs"

text \<open>
  The decoder proper. The first argument bounds the depth of the calls; \<open>json_loads\<close> gives
  it twice the length of the input and two more. Nothing below rests on that bound: the
  general theorems take the decoder as a parameter and the concrete ones evaluate it.
  \<open>scan_array\<close> starts at an element, \<open>scan_object\<close> at the quote of a key.
\<close>

fun scan_value :: "nat \<Rightarrow> string \<Rightarrow> (pyval \<times> string) option"
  and scan_array :: "nat \<Rightarrow> string \<Rightarrow> (pyval list \<times> string) option"
  and scan_object :: "nat \<Rightarrow> string \<Rightarrow> ((string \<times> pyval) list \<times> string) option"
where
  "scan_value 0 s = None"
| "scan_value (Suc n) s =
     (case s of
        [] \<Rightarrow> None
      | c # r \<Rightarrow>
          if c = CHR 0x22 then
            (case scanstring r of None \<Rightarrow> None | Some (x, rest) \<Rightarrow> Some (PStr x, rest))
          else if c = CHR ''{'' then
            (case skip_ws r of
               [] \<Rightarrow> None
             | d # r' \<Rightarrow>
                 if d = CHR ''}'' then Some (PDict [], r')
                 else (case scan_object n (d # r') of
                         None \<Rightarrow> None
                       | Some (kvs, rest) \<Rightarrow> Some (PDict (dict_of_pairs kvs), rest)))
          else if c = CHR ''['' then
            (case skip_ws r of
               [] \<Rightarrow> None
             | d # r' \<Rightarrow>
                 if d = CHR '']'' then Some (PList [], r')
                 else (case scan_array n (d # r') of
                         None \<Rightarrow> None
                       | Some (vs, rest) \<Rightarrow> Some (PList vs, rest)))
          else if prefix ''null'' s then Some (PNone, drop 4 s)
          else if prefix ''true'' s then Some (PBool True, drop 4 s)
          else if prefix ''false'' s then Some (PBool False, drop 5 s)
          else if prefix ''NaN'' s then Some (PFloat NaN, drop 3 s)
          else if prefix ''Infinity'' s then Some (PFloat (Infinite False), drop 8 s)
          else if prefix ''-Infinity'' s then Some (PFloat (Infinite True), drop 9 s)
          else scan_number s)"
| "scan_array 0 s = None"
| "scan_array (Suc n) s =
     (case scan_value n s of
        None \<Rightarrow> None
      | Some (v, r) \<Rightarrow>
          (case skip_ws r of
             [] \<Rightarrow> None
           | d # r' \<Rightarrow>
               if d = CHR '']'' then Some ([v], r')
               else if d = CHR '','' then
                 (case scan_array n (skip_ws r') of
                    None \<Rightarrow> None
                  | Some (vs, rest) \<Rightarrow> Some (v # vs, rest))
               else None))"
| "scan_object 0 s = None"
| "scan_object (Suc n) s =
     (case s of
        [] \<Rightarrow> None
      | q # r \<Rightarrow>
          if q \<noteq> CHR 0x22 then None
          else
            (case scanstring r of
               None \<Rightarrow> None
             | Some (key, r1) \<Rightarrow>
                 (case skip_ws r1 of
                    [] \<Rightarrow> None
                  | col # r2 \<Rightarrow>
                      if col \<noteq> CHR '':'' then None
                      else
                        (case scan_value n (skip_ws r2) of
                           None \<Rightarrow> None
                         | Some (v, r3) \<Rightarrow>
                             (case skip_ws r3 of
                                [] \<Rightarrow> None
                              | d # r4 \<Rightarrow>
                                  if d = CHR ''}'' then Some ([(key, v)], r4)
                                  else if d = CHR '','' then
                                    (case scan_object n (skip_ws r4) of
                                       None \<Rightarrow> None
                                     | Some (kvs, rest) \<Rightarrow> Some ((key, v) # kvs, rest))
                                  else None)))))"

text \<open>
  \<^verbatim>\<open>json.loads(s)\<close>: leading whitespace, one value, trailing whitespace, and nothing else;
  anything else raises \<^verbatim>\<open>JSONDecodeError\<close>.
\<close>

definition json_loads :: "string \<Rightarrow> exn + pyval" where
  "json_loads s =
     (case scan_value (2 * length s + 2) (skip_ws s) of
        None \<Rightarrow> Inl (JSONDecodeError, ''Expecting value'')
      | Some (v, rest) \<Rightarrow>
          if skip_ws rest = [] then Inr v else Inl (JSONDecodeError, ''Extra data''))"

text \<open>
  The encoder with \<^verbatim>\<open>indent=2\<close> and the default \<^verbatim>\<open>ensure_ascii\<close>: a character outside the
  printable ASCII range is written as an escape.
\<close>

definition encode_char :: "char \<Rightarrow> string" where
  "encode_char c =
     (let n = (of_char c :: nat)
      in if c = CHR 0x22 \<or> c = CHR 0x5C then [CHR 0x5C, c]
         else if n = 10 then [CHR 0x5C, CHR ''n'']
         else if n = 13 then [CHR 0x5C, CHR ''r'']
         else if n = 9 then [CHR 0x5C, CHR ''t'']
         else if n = 8 then [CHR 0x5C, CHR ''b'']
         else if n = 12 then [CHR 0x5C, CHR ''f'']
         else if 32 \<le> n \<and> n \<le> 126 then [c]
         else [CHR 0x5C, CHR ''u'', CHR ''0'', CHR ''0''] @ hex2 n)"

definition encode_str :: "string \<Rightarrow> string" where
  "encode_str s = CHR 0x22 # concat (map encode_char s) @ [CHR 0x22]"

definition newline_indent :: "nat \<Rightarrow> string" where
  "newline_indent level = CHR 0x0A # replicate (2 * level) CHR '' ''"

fun json_encode :: "nat \<Rightarrow> pyval \<Rightarrow> string" where
  "json_encode level PNone = ''null''"
| "json_encode level (PBool b) = (if b then ''true'' else ''false'')"
| "json_encode level (PInt i) = int_str i"
| "json_encode level (PFloat x) =
     (case x of
        NaN \<Rightarrow> ''NaN''
      | Infinite neg \<Rightarrow> (if neg then ''-Infinity'' else ''Infinity'')
      | Finite neg m e \<Rightarrow> float_repr x)"
| "json_encode level (PStr s) = encode_str s"
| "json_encode level (PList xs) =
     (if xs = [] then ''[]''
      else ''['' @ newline_indent (Suc level)
        @ py_join (CHR '','' # newline_indent (Suc level)) (map (json_encode (Suc level)) xs)
        @ newline_indent level @ '']'')"
| "json_encode level (PDict kvs) =
     (if kvs = [] then ''{}''
      else ''{'' @ newline_indent (Suc level)
        @ py_join (CHR '','' # newline_indent (Suc level))
            (map (\<lambda>kv. encode_str (fst kv) @ '': '' @ json_encode (Suc level) (snd kv)) kvs)
        @ newline_indent level @ ''}'')"

text \<open>\<^verbatim>\<open>json.dumps(v, indent=2)\<close>.\<close>

definition json_dumps :: "pyval \<Rightarrow> string" where
  "json_dumps v = json_encode 0 v"


section \<open>The invoice processor\<close>

subsection \<open>Configuration and prompt\<close>

text \<open>
  \<^verbatim>\<open>GEMINI_API = os.getenv("GEMINI_API_KEY") or os.getenv("GEMINI_API")\<close>: each variable is
  unset (\<open>None\<close>) or holds a string; \<^verbatim>\<open>or\<close> takes the first when it is a non-empty string.
\<close>

definition str_truthy :: "string option \<Rightarrow> bool" where
  "str_truthy x = (case x of None \<Rightarrow> False | Some s \<Rightarrow> s \<noteq> [])"

definition GEMINI_API :: "string option \<Rightarrow> string option \<Rightarrow> string option" where
  "GEMINI_API key_var api_var = (if str_truthy key_var then key_var else api_var)"

definition INVOICE_EXTRACTION_PROMPT :: string where
  \<open>INVOICE_EXTRACTION_PROMPT = concat [
     ''Analyze this invoice/receipt text and extract the following information in JSON format:\<newline>'',
     ''\<newline>'',
     ''{\<newline>'',
     ''    "vendor_name": "Company/business name",\<newline>'',
     ''    "vendor_address": "Full address if available",\<newline>'',
     ''    "invoice_number": "Invoice/receipt number",\<newline>'',
     ''    "invoice_date": "Date in YYYY-MM-DD format",\<newline>'',
     ''    "due_date": "Due date in YYYY-MM-DD format if available",\<newline>'',
     ''    "subtotal": "Subtotal amount as number",\<newline>'',
     ''    "tax": "Tax amount as number",\<newline>'',
     ''    "total": "Total amount as number",\<newline>'',
     ''    "currency": "Currency code (USD, EUR, etc.)",\<newline>'',
     ''    "payment_method": "Credit card, cash, check, etc. if mentioned",\<newline>'',
     ''    "line_items": [\<newline>'',
     ''        {\<newline>'',
     ''            "description": "Item description",\<newline>'',
     ''            "quantity": "Quantity as number",\<newline>'',
     ''            "unit_price": "Price per unit as number",\<newline>'',
     ''            "amount": "Line total as number"\<newline>'',
     ''        }\<newline>'',
     ''    ],\<newline>'',
     ''    "category_suggestion": "Suggested expense category (Office Supplies, Travel, Meals, Software, Professional Services, etc.)",\<newline>'',
     ''    "notes": "Any additional relevant information"\<newline>'',
     ''}\<newline>'',
     ''\<newline>'',
     ''Be precise with numbers - extract them without currency symbols.\<newline>'',
     ''If a field is not found, use null.\<newline>'',
     ''For dates, convert to YYYY-MM-DD format.\<newline>'',
     ''\<newline>'',
     ''INVOICE TEXT:\<newline>'']\<close>

text \<open>Line 77: \<^verbatim>\<open>prompt = INVOICE_EXTRACTION_PROMPT + text\<close>.\<close>

definition build_prompt :: "string \<Rightarrow> string" where
  "build_prompt text_in = INVOICE_EXTRACTION_PROMPT @ text_in"

subsection \<open>Text extraction\<close>

text \<open>
  \<^verbatim>\<open>extract_text_from_pdf\<close>. The reader either raises on the file or gives the pages; a page
  is given by what its \<^verbatim>\<open>extract_text()\<close> returns. The loop appends a page's text and a
  newline when the text is non-empty.
\<close>

fun extract_loop :: "string list \<Rightarrow> string \<Rightarrow> string" where
  "extract_loop [] acc = acc"
| "extract_loop (page_text # pages) acc =
     extract_loop pages (if page_text \<noteq> [] then acc @ page_text @ [CHR 0x0A] else acc)"

definition extract_text_from_pdf :: "exn + string list \<Rightarrow> exn + string" where
  "extract_text_from_pdf pdf_reader =
     (case pdf_reader of Inl e \<Rightarrow> Inl e | Inr pages \<Rightarrow> Inr (extract_loop pages []))"

subsection \<open>Analysis\<close>

text \<open>Sequencing of two steps that may raise: the second runs on the first one's value.\<close>

definition and_then :: "exn + 'a \<Rightarrow> ('a \<Rightarrow> exn + 'b) \<Rightarrow> exn + 'b" where
  "and_then m f = (case m of Inl e \<Rightarrow> Inl e | Inr x \<Rightarrow> f x)"

text \<open>
  Lines 85 to 88, the handling of markdown code blocks:
  \<^verbatim>\<open>split("```json")[1].split("```")[0]\<close> when the reply has the tagged marker,
  \<^verbatim>\<open>split("```")[1].split("```")[0]\<close> when it has the plain one, else the reply itself.
\<close>

definition strip_fence :: "string \<Rightarrow> exn + string" where
  "strip_fence response_text =
     (if py_in ''```json'' response_text then
        and_then (py_split ''```json'' response_text) (\<lambda>parts.
        and_then (py_index parts 1) (\<lambda>inner.
        and_then (py_split ''```'' inner) (\<lambda>parts'. py_index parts' 0)))
      else if py_in ''```'' response_text then
        and_then (py_split ''```'' response_text) (\<lambda>parts.
        and_then (py_index parts 1) (\<lambda>inner.
        and_then (py_split ''```'' inner) (\<lambda>parts'. py_index parts' 0)))
      else Inr response_text)"

text \<open>
  The specification's reading of the same step: the first fenced block of a reply is the
  text between the first \<open>opening\<close> marker and its closing marker, the next \<^verbatim>\<open>```\<close> after
  it. The result is the commentary before the block, the block's content and the commentary
  after it, or \<open>None\<close> when the reply has no such marker or the block is never closed.
\<close>

definition first_fenced_block :: "string \<Rightarrow> string \<Rightarrow> (string \<times> string \<times> string) option" where
  "first_fenced_block opening t =
     (case py_partition opening t of
        None \<Rightarrow> None
      | Some (header, rest) \<Rightarrow>
          (case py_partition ''```'' rest of
             None \<Rightarrow> None
           | Some (content, footer) \<Rightarrow> Some (header, content, footer)))"

text \<open>
  The response object of the client library is given by what reading its \<^verbatim>\<open>text\<close> property
  does: it returns the reply or raises.
\<close>

type_synonym response = "exn + string"

text \<open>
  The two \<^verbatim>\<open>except\<close> clauses of lines 91 to 94, entered with the exception raised in the
  \<^verbatim>\<open>try\<close> block and with \<^verbatim>\<open>response\<close> as far as it was assigned. The first clause reads
  \<^verbatim>\<open>response.text\<close> again: with \<^verbatim>\<open>response\<close> unassigned that raises \<^verbatim>\<open>UnboundLocalError\<close>,
  and an exception raised inside a handler leaves the function.
\<close>

definition except_clauses :: "exn \<Rightarrow> response option \<Rightarrow> exn + pyval" where
  \<open>except_clauses e response =
     (if fst e = JSONDecodeError then
        (case response of
           None \<Rightarrow> Inl (UnboundLocalError,
             ''cannot access local variable 'response' where it is not associated with a value'')
         | Some r \<Rightarrow>
             and_then r (\<lambda>raw. Inr (PDict [(''error'', PStr ''Failed to parse response''),
                                           (''raw_response'', PStr raw)])))
      else Inr (PDict [(''error'', PStr (snd e))]))\<close>

text \<open>
  \<^verbatim>\<open>analyze_invoice_with_gemini\<close>. Parameters: \<open>loads\<close> is \<^verbatim>\<open>json.loads\<close>; \<open>generate_content\<close>
  is the call to the remote model, the only network request of the function; \<open>api\<close> is the
  global \<^verbatim>\<open>GEMINI_API\<close>. The result is what the function returns (\<open>Inr\<close>) or the exception
  that leaves it (\<open>Inl\<close>), together with the prompts sent over the network, in order.
\<close>

definition analyze_invoice_with_gemini ::
  "(string \<Rightarrow> exn + pyval) \<Rightarrow> (string \<Rightarrow> exn + response) \<Rightarrow> string option \<Rightarrow> string
     \<Rightarrow> (exn + pyval) \<times> string list" where
  "analyze_invoice_with_gemini loads generate_content api text_in =
     (if \<not> str_truthy api then
        (Inr (PDict [(''error'', PStr ''GEMINI_API_KEY not configured. Set in .env file.'')]), [])
      else
        (let prompt = build_prompt text_in
         in ((case generate_content prompt of
                Inl e \<Rightarrow> except_clauses e None
              | Inr response \<Rightarrow>
                  (case and_then response (\<lambda>response_text.
                        and_then (strip_fence response_text) (\<lambda>candidate.
                        loads (py_strip candidate))) of
                     Inl e \<Rightarrow> except_clauses e (Some response)
                   | Inr v \<Rightarrow> Inr v)),
             [prompt])))"

subsection \<open>Display and export\<close>

text \<open>Lines 153 to 158: the data of the JSON download, \<^verbatim>\<open>json.dumps(result, indent=2)\<close>.\<close>

definition download_json :: "pyval \<Rightarrow> string" where
  "download_json result = json_dumps result"

text \<open>Line 161, \<^verbatim>\<open>csv_line\<close>: four \<^verbatim>\<open>result.get(key, '')\<close> fields in an f-string.\<close>

definition csv_line :: "pyval \<Rightarrow> exn + string" where
  "csv_line result =
     and_then (py_get result ''invoice_date'' (PStr [])) (\<lambda>d.
     and_then (py_get result ''vendor_name'' (PStr [])) (\<lambda>v.
     and_then (py_get result ''total'' (PStr [])) (\<lambda>t.
     and_then (py_get result ''category_suggestion'' (PStr [])) (\<lambda>c.
       Inr (py_str d @ '','' @ py_str v @ '','' @ py_str t @ '','' @ py_str c)))))"

text \<open>Line 164: the data of the CSV download.\<close>

definition download_csv :: "pyval \<Rightarrow> exn + string" where
  "download_csv result =
     and_then (csv_line result) (\<lambda>line. Inr (''date,vendor,total,category'' @ [CHR 0x0A] @ line))"

text \<open>
  \<^verbatim>\<open>st.metric(label, value)\<close> of the page library, as far as it can raise: it takes an
  \<^verbatim>\<open>int\<close>, a \<^verbatim>\<open>float\<close>, a \<^verbatim>\<open>str\<close> or \<^verbatim>\<open>None\<close> (a \<^verbatim>\<open>bool\<close> is an \<^verbatim>\<open>int\<close>) and raises
  \<^verbatim>\<open>TypeError\<close> on a list or a dict. What the widget draws is not modelled.
\<close>

definition st_metric :: "pyval \<Rightarrow> exn + unit" where
  \<open>st_metric v =
     (case v of
        PList xs \<Rightarrow>
          Inl (TypeError, [CHR 0x27] @ py_str v @ [CHR 0x27] @ '' is of type <class ''
                 @ str_repr (type_name v) @ ''>, which is not an accepted type.'')
      | PDict kvs \<Rightarrow>
          Inl (TypeError, [CHR 0x27] @ py_str v @ [CHR 0x27] @ '' is of type <class ''
                 @ str_repr (type_name v) @ ''>, which is not an accepted type.'')
      | _ \<Rightarrow> Inr ())\<close>

text \<open>
  Lines 141 to 143, the loop over the line items: a falsy item is skipped; for any other
  item \<^verbatim>\<open>item.get('amount')\<close> is read first (only a dict has \<^verbatim>\<open>get\<close>), and a truthy amount
  is formatted with \<^verbatim>\<open>:.2f\<close>. The loop ends at the first exception.
\<close>

fun show_line_items :: "pyval list \<Rightarrow> exn + unit" where
  "show_line_items [] = Inr ()"
| "show_line_items (item # items) =
     (case (if py_truthy item then
              and_then (py_get item ''amount'' PNone) (\<lambda>amount_test.
                if py_truthy amount_test then
                  and_then (py_get item ''description'' (PStr ''N/A'')) (\<lambda>description.
                  and_then (py_get item ''amount'' (PInt 0)) format_2f)
                else
                  and_then (py_get item ''description'' (PStr ''N/A'')) (\<lambda>description. Inr ()))
            else Inr ()) of
        Inl e \<Rightarrow> Inl e
      | Inr u \<Rightarrow> show_line_items items)"

text \<open>
  What the page ends up showing: the error with the optional raw response, or the record
  with its downloads (the JSON data, the name of the JSON file, the CSV data).
\<close>

datatype shown = ErrorShown string "pyval option" | RecordShown string string string

text \<open>
  Lines 122 to 167 of the page script, run on the stored result, with every statement that
  can raise, in the order of the script. The error branch: \<^verbatim>\<open>result['error']\<close> and the
  optional \<^verbatim>\<open>result["raw_response"]\<close>. The record branch: the vendor metric (line 128); the
  total, formatted with \<^verbatim>\<open>:.2f\<close> when it is truthy (line 132); the date and the category
  metrics (lines 134 and 136); the line items, when truthy (lines 139 to 143); then the two
  downloads (lines 153 to 167). The widgets themselves (\<^verbatim>\<open>st.json\<close>, the headers, the
  buttons) take these values without raising and are not modelled further.
\<close>

definition show_result :: "pyval \<Rightarrow> exn + shown" where
  "show_result result =
     and_then (py_contains ''error'' result) (\<lambda>is_error.
       if is_error then
         and_then (py_getitem result ''error'') (\<lambda>msg.
         and_then (py_contains ''raw_response'' result) (\<lambda>has_raw.
           if has_raw then
             and_then (py_getitem result ''raw_response'') (\<lambda>raw.
               Inr (ErrorShown (''Error: '' @ py_str msg) (Some raw)))
           else Inr (ErrorShown (''Error: '' @ py_str msg) None)))
       else
         and_then (py_get result ''vendor_name'' (PStr ''N/A'')) (\<lambda>vendor.
         and_then (st_metric vendor) (\<lambda>u.
         and_then (py_get result ''total'' PNone) (\<lambda>total_test.
         and_then (if py_truthy total_test
                   then and_then (py_get result ''total'' (PInt 0)) format_2f
                   else Inr ()) (\<lambda>u.
         and_then (py_get result ''invoice_date'' (PStr ''N/A'')) (\<lambda>date.
         and_then (st_metric date) (\<lambda>u.
         and_then (py_get result ''category_suggestion'' (PStr ''N/A'')) (\<lambda>category.
         and_then (st_metric category) (\<lambda>u.
         and_then (py_get result ''line_items'' PNone) (\<lambda>items_test.
         and_then (if py_truthy items_test
                   then and_then (py_getitem result ''line_items'') (\<lambda>line_items.
                        and_then (py_iter line_items) show_line_items)
                   else Inr ()) (\<lambda>u.
         and_then (py_get result ''invoice_number'' (PStr ''data'')) (\<lambda>number.
         and_then (download_csv result) (\<lambda>csv_data.
           Inr (RecordShown (download_json result)
                  (''invoice_'' @ py_str number @ ''.json'') csv_data))))))))))))))"


subsection \<open>Test data\<close>

text \<open>
  The record of the specification's scenario, with every field of the schema that the prompt
  spells out; the fields the scenario leaves out are null.
\<close>

definition acme_record :: pyval where
  "acme_record = PDict
     [(''vendor_name'', PStr ''Acme Corp''),
      (''vendor_address'', PNone),
      (''invoice_number'', PStr ''100''),
      (''invoice_date'', PStr ''2024-03-14''),
      (''due_date'', PNone),
      (''subtotal'', PNone),
      (''tax'', PNone),
      (''total'', PFloat (Finite False 45 0)),
      (''currency'', PStr ''USD''),
      (''payment_method'', PNone),
      (''line_items'', PList []),
      (''category_suggestion'', PStr ''Office Supplies''),
      (''notes'', PNone)]"

text \<open>The model reply of the specification's scenario: a tagged block under one line of commentary.\<close>

definition scenario_reply :: string where
  \<open>scenario_reply =
     ''Here is the data:'' @ [CHR 0x0A] @ ''```json'' @ [CHR 0x0A]
       @ ''{"vendor_name":"Acme Corp","invoice_number":"100","invoice_date":"2024-03-14","total":45.00,"currency":"USD","line_items":[],"category_suggestion":"Office Supplies"}''
       @ [CHR 0x0A] @ ''```''\<close>

text \<open>A reply with two tagged blocks.\<close>

definition two_block_reply :: string where
  \<open>two_block_reply =
     ''Here is the data:'' @ [CHR 0x0A] @ ''```json'' @ [CHR 0x0A]
       @ ''{"vendor_name": "Acme Corp"}'' @ [CHR 0x0A] @ ''```'' @ [CHR 0x0A]
       @ ''A second reading:'' @ [CHR 0x0A] @ ''```json'' @ [CHR 0x0A]
       @ ''{"vendor_name": "Other Ltd"}'' @ [CHR 0x0A] @ ''```''\<close>

text \<open>A client that answers every prompt with the same reply text.\<close>

definition replies :: "string \<Rightarrow> string \<Rightarrow> exn + response" where
  "replies reply prompt = Inr (Inr reply)"


section \<open>Properties of the string primitives\<close>

text \<open>
  \<open>py_in\<close> is the sublist relation, and \<open>py_partition\<close> cuts at the leftmost occurrence: these
  two facts fix what "the first marker" means below.
\<close>

lemma py_in_sublist: "py_in sub s = sublist sub s"
  by (induction s) (auto simp: sublist_Cons_right)

lemma py_partition_None_iff: "sep \<noteq> [] \<Longrightarrow> (py_partition sep s = None) = (\<not> py_in sep s)"
  by (induction s) (auto split: option.splits)

lemma py_partition_Some: "py_partition sep s = Some (b, a) \<Longrightarrow> s = b @ sep @ a"
proof (induction s arbitrary: b)
  case Nil
  then show ?case by simp
next
  case (Cons c cs)
  show ?case
  proof (cases "prefix sep (c # cs)")
    case True
    with Cons.prems have ba: "b = []" "a = drop (length sep) (c # cs)" by auto
    from True have "take (length sep) (c # cs) = sep" by (metis append_eq_conv_conj prefix_def)
    then have "c # cs = sep @ drop (length sep) (c # cs)" by (metis append_take_drop_id)
    with ba show ?thesis by simp
  next
    case False
    with Cons.prems obtain b0 where "py_partition sep cs = Some (b0, a)" "b = c # b0"
      by (auto split: option.splits)
    with Cons.IH show ?thesis by auto
  qed
qed

lemma py_partition_first:
  "py_partition sep s = Some (b, a) \<Longrightarrow> s = b' @ sep @ a' \<Longrightarrow> length b \<le> length b'"
proof (induction s arbitrary: b b')
  case Nil
  then show ?case by simp
next
  case (Cons c cs)
  show ?case
  proof (cases "prefix sep (c # cs)")
    case True
    with Cons.prems(1) have "b = []" by auto
    then show ?thesis by simp
  next
    case False
    with Cons.prems(1) obtain b0 where p: "py_partition sep cs = Some (b0, a)" "b = c # b0"
      by (auto split: option.splits)
    from False Cons.prems(2) have "b' \<noteq> []" by (auto simp: prefix_def)
    then obtain b0' where "b' = c # b0'" "cs = b0' @ sep @ a'"
      using Cons.prems(2) by (cases b') auto
    with Cons.IH p show ?thesis by auto
  qed
qed

lemma before_first_Nil: "before_first sep [] = []"
  by (simp add: before_first_def)

lemma before_first_Cons:
  "before_first sep (c # cs) = (if prefix sep (c # cs) then [] else c # before_first sep cs)"
  by (simp add: before_first_def split: option.splits)

lemma before_first_prefix: "prefix (before_first sep s) s"
  by (induction s) (auto simp: before_first_Nil before_first_Cons)

lemma split_segments_unfold:
  "sep \<noteq> [] \<Longrightarrow> split_segments sep s =
     (case py_partition sep s of None \<Rightarrow> [s] | Some (b, a) \<Rightarrow> b # split_segments sep a)"
  by (subst split_segments.simps) simp

lemma split_segments_hd: "sep \<noteq> [] \<Longrightarrow> \<exists>segs. split_segments sep s = before_first sep s # segs"
  by (subst split_segments.simps) (simp add: before_first_def split: option.splits)

lemma index_first: "sep \<noteq> [] \<Longrightarrow> and_then (py_split sep s) (\<lambda>parts. py_index parts 0) = Inr (before_first sep s)"
  using split_segments_hd[of sep s] by (auto simp: py_split_def and_then_def py_index_def)

lemma index_second:
  "sep \<noteq> [] \<Longrightarrow> py_partition sep s = Some (h, rest) \<Longrightarrow>
   and_then (py_split sep s) (\<lambda>parts. and_then (py_index parts 1) f) = f (before_first sep rest)"
proof -
  assume ne: "sep \<noteq> []" and p: "py_partition sep s = Some (h, rest)"
  from ne obtain segs where "split_segments sep rest = before_first sep rest # segs"
    using split_segments_hd by blast
  with ne p have "split_segments sep s = h # before_first sep rest # segs"
    by (simp add: split_segments_unfold)
  with ne show ?thesis by (simp add: py_split_def and_then_def py_index_def)
qed

lemma tagged_in_plain: "py_in ''```json'' t \<Longrightarrow> py_in ''```'' t"
proof -
  assume "py_in ''```json'' t"
  then obtain ps ss where "t = ps @ ''```json'' @ ss" by (auto simp: py_in_sublist sublist_def)
  then have "t = ps @ ''```'' @ (''json'' @ ss)" by simp
  then show ?thesis unfolding py_in_sublist sublist_def by blast
qed

lemma strip_fence_tagged:
  assumes "py_partition ''```json'' t = Some (h, rest)"
  shows "strip_fence t = Inr (before_first ''```'' (before_first ''```json'' rest))"
proof -
  from assms have "py_in ''```json'' t"
    using py_partition_None_iff[of "''```json''" t] by auto
  then have "strip_fence t =
      and_then (py_split ''```json'' t) (\<lambda>parts. and_then (py_index parts 1) (\<lambda>inner.
        and_then (py_split ''```'' inner) (\<lambda>parts'. py_index parts' 0)))"
    by (simp add: strip_fence_def)
  also have "\<dots> = and_then (py_split ''```'' (before_first ''```json'' rest)) (\<lambda>parts'. py_index parts' 0)"
    using assms by (subst index_second[where h = h and rest = rest]) simp_all
  also have "\<dots> = Inr (before_first ''```'' (before_first ''```json'' rest))"
    by (rule index_first) simp
  finally show ?thesis .
qed

lemma strip_fence_plain:
  assumes "\<not> py_in ''```json'' t" and "py_partition ''```'' t = Some (h, rest)"
  shows "strip_fence t = Inr (before_first ''```'' (before_first ''```'' rest))"
proof -
  from assms(2) have "py_in ''```'' t"
    using py_partition_None_iff[of "''```''" t] by auto
  with assms(1) have "strip_fence t =
      and_then (py_split ''```'' t) (\<lambda>parts. and_then (py_index parts 1) (\<lambda>inner.
        and_then (py_split ''```'' inner) (\<lambda>parts'. py_index parts' 0)))"
    by (simp add: strip_fence_def)
  also have "\<dots> = and_then (py_split ''```'' (before_first ''```'' rest)) (\<lambda>parts'. py_index parts' 0)"
    using assms(2) by (subst index_second[where h = h and rest = rest]) simp_all
  also have "\<dots> = Inr (before_first ''```'' (before_first ''```'' rest))"
    by (rule index_first) simp
  finally show ?thesis .
qed

lemma strip_fence_none: "\<not> py_in ''```'' t \<Longrightarrow> strip_fence t = Inr t"
  using tagged_in_plain[of t] by (auto simp: strip_fence_def)

lemma strip_fence_returns: "\<exists>c. strip_fence t = Inr c"
proof (cases "py_partition ''```json'' t")
  case (Some a)
  then show ?thesis using strip_fence_tagged[of t "fst a" "snd a"] by auto
next
  case None
  then have nj: "\<not> py_in ''```json'' t" using py_partition_None_iff[of "''```json''" t] by simp
  show ?thesis
  proof (cases "py_partition ''```'' t")
    case (Some a)
    with nj show ?thesis using strip_fence_plain[of t "fst a" "snd a"] by auto
  next
    case None
    then have "\<not> py_in ''```'' t" using py_partition_None_iff[of "''```''" t] by simp
    then show ?thesis using strip_fence_none by blast
  qed
qed

lemma before_first_idem: "sep \<noteq> [] \<Longrightarrow> before_first sep (before_first sep s) = before_first sep s"
proof (induction s)
  case Nil
  then show ?case by (simp add: before_first_Nil)
next
  case (Cons c cs)
  show ?case
  proof (cases "prefix sep (c # cs)")
    case True
    then show ?thesis by (simp add: before_first_Cons before_first_Nil)
  next
    case False
    have "prefix (c # before_first sep cs) (c # cs)" by (simp add: before_first_prefix)
    with False have "\<not> prefix sep (c # before_first sep cs)"
      using prefix_order.trans by blast
    with False Cons show ?thesis by (simp add: before_first_Cons)
  qed
qed

lemma py_partition_Cons_not:
  "\<not> prefix sep (c # cs) \<Longrightarrow> py_partition sep (c # cs) =
     (case py_partition sep cs of None \<Rightarrow> None | Some (b, a) \<Rightarrow> Some (c # b, a))"
  by simp

lemma closing_found:
  assumes "py_partition ''```'' r = Some (c, f)"
    and "\<not> prefix ''`json'' f" and "\<not> prefix ''``json'' f"
  shows "before_first ''```'' (before_first ''```json'' r) = c"
  using assms
proof (induction r arbitrary: c)
  case Nil
  then show ?case by simp
next
  case (Cons x xs)
  show ?case
  proof (cases "prefix ''```'' (x # xs)")
    case True
    from True obtain zs where zs: "x # xs = ''```'' @ zs" by (auto simp: prefix_def)
    from True Cons.prems(1) have c: "c = []" and "f = drop (length ''```'') (x # xs)" by auto
    with zs have r: "x # xs = ''```'' @ f" by simp
    show ?thesis
    proof (cases "prefix ''```json'' (x # xs)")
      case True
      then have "before_first ''```json'' (x # xs) = []"
        by (simp only: before_first_Cons if_True)
      then show ?thesis by (simp add: c before_first_Nil)
    next
      case False
      from r have x: "x = CHR 0x60" and xs: "xs = CHR 0x60 # CHR 0x60 # f" by simp_all
      have n1: "\<not> prefix ''```json'' (CHR 0x60 # CHR 0x60 # f)" using Cons.prems(2) by simp
      have n2: "\<not> prefix ''```json'' (CHR 0x60 # f)" using Cons.prems(3) by simp
      from False have n0: "\<not> prefix ''```json'' (CHR 0x60 # CHR 0x60 # CHR 0x60 # f)"
        by (simp add: x xs)
      have "before_first ''```json'' (x # xs) = ''```'' @ before_first ''```json'' f"
        unfolding x xs using n0 n1 n2 by (simp only: before_first_Cons if_False append_Cons append_Nil)
      then show ?thesis by (simp add: c before_first_Cons)
    qed
  next
    case False
    then have "py_partition ''```'' (x # xs) =
        (case py_partition ''```'' xs of None \<Rightarrow> None | Some (b, a) \<Rightarrow> Some (x # b, a))"
      by (rule py_partition_Cons_not)
    with Cons.prems(1) obtain c0 where p: "py_partition ''```'' xs = Some (c0, f)" and c: "c = x # c0"
      by (auto split: option.splits simp del: py_partition.simps)
    have "prefix ''```'' ''```json''" by simp
    with False have nj: "\<not> prefix ''```json'' (x # xs)"
      using prefix_order.trans by blast
    have "prefix (x # before_first ''```json'' xs) (x # xs)" by (simp add: before_first_prefix)
    with False have "\<not> prefix ''```'' (x # before_first ''```json'' xs)"
      using prefix_order.trans by blast
    then have s2: "before_first ''```'' (x # before_first ''```json'' xs) =
        x # before_first ''```'' (before_first ''```json'' xs)"
      by (simp only: before_first_Cons if_False)
    from nj have s1: "before_first ''```json'' (x # xs) = x # before_first ''```json'' xs"
      by (simp only: before_first_Cons if_False)
    show ?thesis
      unfolding s1 s2 c using Cons.IH[OF p Cons.prems(2,3)] by simp
  qed
qed

lemma py_partition_Cons_prefix:
  "prefix sep (c # cs) \<Longrightarrow> py_partition sep (c # cs) = Some ([], drop (length sep) (c # cs))"
  by simp

lemma tagged_marker_first:
  "\<not> py_in ''```json'' b \<Longrightarrow> py_partition ''```json'' (b @ ''```json'' @ x) = Some (b, x)"
proof (induction b)
  case Nil
  then show ?case by simp
next
  case (Cons c cs)
  from Cons.prems have np: "\<not> prefix ''```json'' (c # cs)" and ni: "\<not> py_in ''```json'' cs"
    by (auto split: if_splits)
  have "\<not> prefix ''```json'' ((c # cs) @ ''```json'' @ x)"
  proof
    assume "prefix ''```json'' ((c # cs) @ ''```json'' @ x)"
    with np obtain us where "''```json'' = (c # cs) @ us" and "prefix us (''```json'' @ x)"
      by (auto simp: prefix_append)
    then show False using np by (auto simp: Cons_eq_append_conv)
  qed
  then have "py_partition ''```json'' ((c # cs) @ ''```json'' @ x) =
      (case py_partition ''```json'' (cs @ ''```json'' @ x) of
         None \<Rightarrow> None | Some (b, a) \<Rightarrow> Some (c # b, a))"
    unfolding append_Cons by (rule py_partition_Cons_not)
  with Cons.IH[OF ni] show ?case by simp
qed

lemma closing_marker_first:
  "\<not> py_in ''```'' d \<Longrightarrow>
   py_partition ''```'' (d @ CHR 0x0A # ''```'' @ x) = Some (d @ [CHR 0x0A], x)"
proof (induction d)
  case Nil
  then show ?case by simp
next
  case (Cons c cs)
  from Cons.prems have np: "\<not> prefix ''```'' (c # cs)" and ni: "\<not> py_in ''```'' cs"
    by (auto split: if_splits)
  have "\<not> prefix ''```'' ((c # cs) @ CHR 0x0A # ''```'' @ x)"
  proof
    assume "prefix ''```'' ((c # cs) @ CHR 0x0A # ''```'' @ x)"
    with np obtain us where "''```'' = (c # cs) @ us" and "prefix us (CHR 0x0A # ''```'' @ x)"
      by (auto simp: prefix_append)
    then show False using np by (auto simp: Cons_eq_append_conv)
  qed
  then have "py_partition ''```'' ((c # cs) @ CHR 0x0A # ''```'' @ x) =
      (case py_partition ''```'' (cs @ CHR 0x0A # ''```'' @ x) of
         None \<Rightarrow> None | Some (b, a) \<Rightarrow> Some (c # b, a))"
    unfolding append_Cons by (rule py_partition_Cons_not)
  with Cons.IH[OF ni] show ?case by simp
qed

lemma isspace_newline: "isspace (CHR 0x0A)"
  by (simp add: isspace_def)

lemma dropWhile_space_snoc:
  "isspace w \<Longrightarrow> rev (dropWhile isspace (rev (dropWhile isspace (s @ [w])))) =
     rev (dropWhile isspace (rev (dropWhile isspace s)))"
proof (cases "\<forall>x \<in> set s. isspace x")
  case True
  assume "isspace w"
  with True have "dropWhile isspace (s @ [w]) = []" and "dropWhile isspace s = []"
    by simp_all
  then show ?thesis by (simp only: rev.simps dropWhile.simps)
next
  case False
  assume w: "isspace w"
  from False obtain x where "x \<in> set s" "\<not> isspace x" by blast
  then have "dropWhile isspace (s @ [w]) = dropWhile isspace s @ [w]"
    by (rule dropWhile_append1)
  with w show ?thesis by simp
qed

lemma py_strip_padded: "isspace w \<Longrightarrow> isspace w' \<Longrightarrow> py_strip (w # s @ [w']) = py_strip s"
  using dropWhile_space_snoc[of w' s] by (simp add: py_strip_def)

lemma analyze_reply:
  assumes "str_truthy api"
    and "generate_content (build_prompt text_in) = Inr (Inr raw)"
    and "strip_fence raw = Inr c"
  shows "fst (analyze_invoice_with_gemini loads generate_content api text_in) =
     (case loads (py_strip c) of
        Inr v \<Rightarrow> Inr v
      | Inl e \<Rightarrow> except_clauses e (Some (Inr raw)))"
  using assms by (simp add: analyze_invoice_with_gemini_def and_then_def Let_def)

lemma fenced_reply_candidate:
  assumes "\<not> py_in ''```json'' before"
    and "\<not> py_in ''```'' doc"
    and "\<not> prefix ''`json'' after" and "\<not> prefix ''``json'' after"
  shows "strip_fence (before @ ''```json'' @ [CHR 0x0A] @ doc @ [CHR 0x0A] @ ''```'' @ after)
     = Inr (CHR 0x0A # doc @ [CHR 0x0A])"
proof -
  let ?rest = "CHR 0x0A # doc @ CHR 0x0A # ''```'' @ after"
  have t: "before @ ''```json'' @ [CHR 0x0A] @ doc @ [CHR 0x0A] @ ''```'' @ after
      = before @ ''```json'' @ ?rest" by simp
  have "py_partition ''```json'' (before @ ''```json'' @ ?rest) = Some (before, ?rest)"
    using assms(1) by (rule tagged_marker_first)
  then have 1: "strip_fence (before @ ''```json'' @ ?rest) =
      Inr (before_first ''```'' (before_first ''```json'' ?rest))"
    by (rule strip_fence_tagged)
  have np: "\<not> prefix ''```'' ?rest" by simp
  have "py_partition ''```'' (doc @ CHR 0x0A # ''```'' @ after) = Some (doc @ [CHR 0x0A], after)"
    using assms(2) by (rule closing_marker_first)
  then have "py_partition ''```'' ?rest = Some (CHR 0x0A # doc @ [CHR 0x0A], after)"
    by (simp only: py_partition_Cons_not[OF np] option.case prod.case)
  then have "before_first ''```'' (before_first ''```json'' ?rest) = CHR 0x0A # doc @ [CHR 0x0A]"
    using assms(3,4) by (rule closing_found)
  with 1 show ?thesis unfolding t by simp
qed


section \<open>Properties of the extraction loop and the prompt\<close>

lemma extract_loop_acc:
  "extract_loop pages acc = acc @ concat (map (\<lambda>p. p @ [CHR 0x0A]) (filter (\<lambda>p. p \<noteq> []) pages))"
  by (induction pages arbitrary: acc) simp_all

lemma concat_lines_join:
  "concat (map (\<lambda>p. p @ [CHR 0x0A]) ps) = (if ps = [] then [] else py_join [CHR 0x0A] ps @ [CHR 0x0A])"
  by (induction "[CHR 0x0A]" ps rule: py_join.induct) simp_all

lemma length_Cons_plus: "length (x # xs) = 1 + length xs"
  by simp

lemma prompt_length: "length INVOICE_EXTRACTION_PROMPT = 1161"
  unfolding INVOICE_EXTRACTION_PROMPT_def concat.simps length_append
  by (simp only: length_Cons_plus list.size(3) add_0_right)

lemma prompt_last: "last INVOICE_EXTRACTION_PROMPT = CHR 0x0A"
  unfolding INVOICE_EXTRACTION_PROMPT_def concat.simps
  by (simp only: last_appendR append_is_Nil_conv append_Nil2 list.distinct simp_thms
        last.simps if_True if_False)

section \<open>Properties of the fence handling\<close>

text \<open>The cases of \<open>strip_fence\<close>, by what the reply holds.\<close>

lemma not_plain_not_tagged: "\<not> py_in ''```'' t \<Longrightarrow> \<not> py_in ''```json'' t"
  using tagged_in_plain by blast

lemma before_first_absent: "sep \<noteq> [] \<Longrightarrow> \<not> py_in sep s \<Longrightarrow> before_first sep s = s"
  using py_partition_None_iff[of sep s] by (simp add: before_first_def)

lemma strip_fence_unclosed_tagged:
  assumes "py_partition ''```json'' t = Some (h, r)" and "\<not> py_in ''```'' r"
  shows "strip_fence t = Inr r"
proof -
  from assms(2) have "\<not> py_in ''```json'' r" by (rule not_plain_not_tagged)
  then have "before_first ''```json'' r = r" by (simp add: before_first_absent)
  moreover from assms(2) have "before_first ''```'' r = r" by (simp add: before_first_absent)
  ultimately show ?thesis using strip_fence_tagged[OF assms(1)] by simp
qed

lemma strip_fence_unclosed_plain:
  assumes "\<not> py_in ''```json'' t" and "py_partition ''```'' t = Some (h, r)" and "\<not> py_in ''```'' r"
  shows "strip_fence t = Inr r"
proof -
  from assms(3) have "before_first ''```'' r = r" by (simp add: before_first_absent)
  then show ?thesis using strip_fence_plain[OF assms(1,2)] by simp
qed

lemma strip_fence_tagged_block:
  assumes "first_fenced_block ''```json'' t = Some (h, c, f)"
    and "\<not> prefix ''`json'' f" and "\<not> prefix ''``json'' f"
  shows "strip_fence t = Inr c"
proof -
  from assms(1) obtain r where p: "py_partition ''```json'' t = Some (h, r)"
    and q: "py_partition ''```'' r = Some (c, f)"
    by (auto simp: first_fenced_block_def split: option.splits)
  from q assms(2,3) have "before_first ''```'' (before_first ''```json'' r) = c"
    by (rule closing_found)
  with strip_fence_tagged[OF p] show ?thesis by simp
qed

lemma strip_fence_plain_block:
  assumes "\<not> py_in ''```json'' t" and "first_fenced_block ''```'' t = Some (h, c, f)"
  shows "strip_fence t = Inr c"
proof -
  from assms(2) obtain r where p: "py_partition ''```'' t = Some (h, r)"
    and q: "py_partition ''```'' r = Some (c, f)"
    by (auto simp: first_fenced_block_def split: option.splits)
  from q have "before_first ''```'' r = c" by (simp add: before_first_def)
  moreover have "before_first ''```'' (before_first ''```'' r) = before_first ''```'' r"
    by (rule before_first_idem) simp
  ultimately have "before_first ''```'' (before_first ''```'' r) = c"
    by (simp only:)
  with strip_fence_plain[OF assms(1) p] show ?thesis by simp
qed

section \<open>Properties of the analysis, the display and the export\<close>

text \<open>A configured run sends exactly one request, the built prompt.\<close>

lemma configured_sends_one_request:
  "str_truthy api \<Longrightarrow>
   snd (analyze_invoice_with_gemini loads generate_content api text_in) = [build_prompt text_in]"
  by (simp add: analyze_invoice_with_gemini_def Let_def)

text \<open>A failure of the client that is not a decode error comes back as an error value.\<close>

lemma service_failure_is_error:
  "str_truthy api \<Longrightarrow> generate_content (build_prompt text_in) = Inl (cls, msg) \<Longrightarrow>
   cls \<noteq> JSONDecodeError \<Longrightarrow>
   fst (analyze_invoice_with_gemini loads generate_content api text_in) =
     Inr (PDict [(''error'', PStr msg)])"
  by (simp add: analyze_invoice_with_gemini_def except_clauses_def Let_def)

text \<open>
  Should the client itself raise a \<^verbatim>\<open>JSONDecodeError\<close>, the first handler reads the unassigned
  \<^verbatim>\<open>response\<close> and the function is left by an \<^verbatim>\<open>UnboundLocalError\<close>.
\<close>

lemma client_decode_error_escapes:
  "str_truthy api \<Longrightarrow> generate_content (build_prompt text_in) = Inl (JSONDecodeError, msg) \<Longrightarrow>
   \<exists>m. fst (analyze_invoice_with_gemini loads generate_content api text_in) = Inl (UnboundLocalError, m)"
  by (simp add: analyze_invoice_with_gemini_def except_clauses_def Let_def)

text \<open>
  The record branch of the page: when it gets to the downloads, the JSON data is the
  serialization of the result and the CSV data is \<open>download_csv\<close> of it, and the result has
  no key \<^verbatim>\<open>error\<close>.
\<close>

lemma and_then_Inr: "and_then m f = Inr y \<Longrightarrow> \<exists>x. m = Inr x \<and> f x = Inr y"
  by (cases m) (simp_all add: and_then_def)

lemma show_result_record_exports:
  assumes "show_result result = Inr (RecordShown json_data file_name csv_data)"
  shows "json_data = download_json result \<and> download_csv result = Inr csv_data
    \<and> py_contains ''error'' result = Inr False"
proof -
  from assms obtain is_error where e: "py_contains ''error'' result = Inr is_error"
    unfolding show_result_def by (auto dest!: and_then_Inr)
  have ne: "\<not> is_error"
  proof
    assume "is_error"
    with assms e show False
      unfolding show_result_def by (auto dest!: and_then_Inr split: if_splits)
  qed
  with assms e show ?thesis
    unfolding show_result_def by (auto dest!: and_then_Inr)
qed

lemma small_int_formats: "\<bar>i\<bar> < 2 ^ 64 \<Longrightarrow> format_2f (PInt i) = Inr ()"
proof -
  assume "\<bar>i\<bar> < 2 ^ 64"
  moreover have "(2::int) ^ 64 \<le> float_overflow_bound"
    unfolding float_overflow_bound_def by simp
  ultimately show ?thesis by (simp add: format_2f_def)
qed

text \<open>
  The display can raise before the downloads: on a total or a line-item amount that is a
  string, on line items that are a number, on a vendor that is a list.
\<close>

lemma string_total_breaks_display:
  "show_result (PDict [(''total'', PStr ''123.45''), (''tax'', PStr ''n/a'')]) =
     Inl (ValueError,
          ''Unknown format code '' @ str_repr ''f'' @ '' for object of type '' @ str_repr ''str'')"
  by code_simp

lemma line_item_display:
  \<open>show_result (PDict [(''line_items'', PList [PDict [(''description'', PStr ''Paper'')], PNone,
                                               PDict [(''description'', PStr ''Pens''), (''amount'', PInt 5)]])])
     = Inr (RecordShown
        (json_dumps (PDict [(''line_items'', PList [PDict [(''description'', PStr ''Paper'')], PNone,
                                               PDict [(''description'', PStr ''Pens''), (''amount'', PInt 5)]])]))
        ''invoice_data.json'' (''date,vendor,total,category'' @ [CHR 0x0A] @ '',,,''))
   \<and> show_result (PDict [(''line_items'', PList [PDict [(''amount'', PStr ''5.00'')]])])
     = Inl (ValueError,
          ''Unknown format code '' @ str_repr ''f'' @ '' for object of type '' @ str_repr ''str'')
   \<and> show_result (PDict [(''line_items'', PInt 5)])
     = Inl (TypeError, str_repr ''int'' @ '' object is not iterable'')
   \<and> show_result (PDict [(''vendor_name'', PList [PStr ''Acme'']), (''total'', PInt 5)])
     = Inl (TypeError, [CHR 0x27] @ py_str (PList [PStr ''Acme'']) @ [CHR 0x27] @ '' is of type <class ''
                 @ str_repr ''list'' @ ''>, which is not an accepted type.'')\<close>
  by code_simp

lemma json_dumps_dict:
  "json_dumps (PDict kvs) =
     (if kvs = [] then ''{}''
      else ''{'' @ newline_indent 1
        @ py_join (CHR '','' # newline_indent 1)
            (map (\<lambda>kv. encode_str (fst kv) @ '': '' @ json_encode 1 (snd kv)) kvs)
        @ newline_indent 0 @ ''}'')"
  by (simp add: json_dumps_def)

lemma csv_line_dict:
  "csv_line (PDict kvs) =
     Inr (py_str (case map_of kvs ''invoice_date'' of Some x \<Rightarrow> x | None \<Rightarrow> PStr [])
          @ '','' @ py_str (case map_of kvs ''vendor_name'' of Some x \<Rightarrow> x | None \<Rightarrow> PStr [])
          @ '','' @ py_str (case map_of kvs ''total'' of Some x \<Rightarrow> x | None \<Rightarrow> PStr [])
          @ '','' @ py_str (case map_of kvs ''category_suggestion'' of Some x \<Rightarrow> x | None \<Rightarrow> PStr []))"
  by (simp add: csv_line_def py_get_def and_then_def)

lemma scenario_normalizes:
  "fst (analyze_invoice_with_gemini json_loads (replies scenario_reply) (Some ''key'')
         (''Acme Corp'' @ [CHR 0x0A] @ ''Invoice #100'' @ [CHR 0x0A] @ ''Total: $45.00'' @ [CHR 0x0A] @ ''Date: 03/14/2024''))
   = Inr (PDict
      [(''vendor_name'', PStr ''Acme Corp''), (''invoice_number'', PStr ''100''),
       (''invoice_date'', PStr ''2024-03-14''), (''total'', PFloat (Finite False 45 0)),
       (''currency'', PStr ''USD''), (''line_items'', PList []),
       (''category_suggestion'', PStr ''Office Supplies'')])"
  by code_simp

lemma scenario_csv:
  "download_csv (PDict
      [(''vendor_name'', PStr ''Acme Corp''), (''invoice_number'', PStr ''100''),
       (''invoice_date'', PStr ''2024-03-14''), (''total'', PFloat (Finite False 45 0)),
       (''currency'', PStr ''USD''), (''line_items'', PList []),
       (''category_suggestion'', PStr ''Office Supplies'')])
   = Inr (''date,vendor,total,category'' @ [CHR 0x0A] @ ''2024-03-14,Acme Corp,45.0,Office Supplies'')"
  by code_simp

text \<open>The page gets to the downloads at the scenario's reply and at the reply with a null date.\<close>

lemma csv_null_page_reaches_export:
  \<open>and_then (fst (analyze_invoice_with_gemini json_loads
        (replies ''{"vendor_name": "Acme Corp", "invoice_date": null, "total": 45.00, "category_suggestion": "Office Supplies"}'')
        (Some ''key'') ''Total: 45'')) show_result
     = Inr (RecordShown
        (json_dumps (PDict [(''vendor_name'', PStr ''Acme Corp''), (''invoice_date'', PNone),
                            (''total'', PFloat (Finite False 45 0)),
                            (''category_suggestion'', PStr ''Office Supplies'')]))
        ''invoice_data.json''
        (''date,vendor,total,category'' @ [CHR 0x0A] @ ''None,Acme Corp,45.0,Office Supplies''))\<close>
  by code_simp

lemma scenario_page_reaches_export:
  "and_then (fst (analyze_invoice_with_gemini json_loads (replies scenario_reply) (Some ''key'') ''Total: $45.00''))
     show_result
   = Inr (RecordShown
      (json_dumps (PDict
        [(''vendor_name'', PStr ''Acme Corp''), (''invoice_number'', PStr ''100''),
         (''invoice_date'', PStr ''2024-03-14''), (''total'', PFloat (Finite False 45 0)),
         (''currency'', PStr ''USD''), (''line_items'', PList []),
         (''category_suggestion'', PStr ''Office Supplies'')]))
      ''invoice_100.json''
      (''date,vendor,total,category'' @ [CHR 0x0A] @ ''2024-03-14,Acme Corp,45.0,Office Supplies''))"
  by code_simp

section \<open>The claims\<close>

subsection \<open>C9: the text extractor\<close>

text \<open>
  C9, as the code has it. For a well-formed document, \<open>extract_text_from_pdf\<close> returns the
  texts of the pages that yield non-empty text, in page order, each followed by a newline;
  a page without text contributes nothing. So the output is the newline-joined page texts
  with one more newline at the end (and the empty string when no page has text).
\<close>

theorem extracted_text_lines:
  "extract_text_from_pdf (Inr pages) =
     Inr (concat (map (\<lambda>p. p @ [CHR 0x0A]) (filter (\<lambda>p. p \<noteq> []) pages)))
   \<and> extract_text_from_pdf (Inr pages) =
     Inr (if filter (\<lambda>p. p \<noteq> []) pages = [] then []
          else py_join [CHR 0x0A] (filter (\<lambda>p. p \<noteq> []) pages) @ [CHR 0x0A])"
  by (simp add: extract_text_from_pdf_def extract_loop_acc concat_lines_join)

text \<open>
  C9 as stated fails: for the pages \<^verbatim>\<open>"Acme Corp"\<close>, \<^verbatim>\<open>""\<close>, \<^verbatim>\<open>"Total: 45"\<close> the output is
  not the two texts joined by a newline, because it ends with a newline of its own.
\<close>

theorem extracted_text_join_counterexample:
  "extract_text_from_pdf (Inr [''Acme Corp'', [], ''Total: 45''])
     \<noteq> Inr (py_join [CHR 0x0A] (filter (\<lambda>p. p \<noteq> []) [''Acme Corp'', [], ''Total: 45'']))"
  by (simp add: extract_text_from_pdf_def)

subsection \<open>C10: the prompt builder\<close>

text \<open>
  C10, as the code has it. The prompt is the constant \<open>INVOICE_EXTRACTION_PROMPT\<close> followed by
  the input text, unchanged and whole; being a function of the text, equal texts give equal
  prompts. Its length is the length of the constant (1161) plus the length of the text: no
  character is added at the join, the newline before the text being the last character of
  the constant itself.
\<close>

theorem prompt_is_header_then_text:
  "build_prompt text_in = INVOICE_EXTRACTION_PROMPT @ text_in
   \<and> length (build_prompt text_in) = length INVOICE_EXTRACTION_PROMPT + length text_in
   \<and> take (length INVOICE_EXTRACTION_PROMPT) (build_prompt text_in) = INVOICE_EXTRACTION_PROMPT
   \<and> drop (length INVOICE_EXTRACTION_PROMPT) (build_prompt text_in) = text_in
   \<and> length INVOICE_EXTRACTION_PROMPT = 1161
   \<and> last INVOICE_EXTRACTION_PROMPT = CHR 0x0A"
  by (simp add: build_prompt_def prompt_length prompt_last)

text \<open>
  C10 as stated fails in its length formula: the prompt for \<^verbatim>\<open>"Total: 45"\<close> is not one
  character longer than the header and the text together.
\<close>

theorem prompt_length_counterexample:
  "length (build_prompt ''Total: 45'')
     \<noteq> length INVOICE_EXTRACTION_PROMPT + length ''Total: 45'' + 1"
  by (simp add: build_prompt_def)

subsection \<open>C8: no credential\<close>

text \<open>
  C8, as the code has it. When \<open>GEMINI_API\<close> is unset or empty, the analysis returns the error
  value with the message \<^verbatim>\<open>GEMINI_API_KEY not configured. Set in .env file.\<close> and sends
  nothing over the network, whatever the input text.
\<close>

theorem unconfigured_short_circuits:
  "\<not> str_truthy api \<Longrightarrow>
   analyze_invoice_with_gemini loads generate_content api text_in =
     (Inr (PDict [(''error'', PStr ''GEMINI_API_KEY not configured. Set in .env file.'')]), [])"
  by (simp add: analyze_invoice_with_gemini_def)

text \<open>C8 at work: neither variable gives a key (one unset, one empty).\<close>

theorem unconfigured_short_circuits_witness:
  "analyze_invoice_with_gemini json_loads (replies ''{}'') (GEMINI_API None (Some [])) ''Total: 45'' =
     (Inr (PDict [(''error'', PStr ''GEMINI_API_KEY not configured. Set in .env file.'')]), [])"
proof -
  have "\<not> str_truthy (GEMINI_API None (Some []))"
    by (simp add: GEMINI_API_def str_truthy_def)
  then show ?thesis by (rule unconfigured_short_circuits)
qed

text \<open>C8 as stated fails in the message: it is not \<^verbatim>\<open>service not configured\<close>.\<close>

theorem unconfigured_message_counterexample:
  "fst (analyze_invoice_with_gemini json_loads (replies ''{}'') None ''Total: 45'')
     \<noteq> Inr (PDict [(''error'', PStr ''service not configured'')])"
  by (simp add: analyze_invoice_with_gemini_def str_truthy_def)

subsection \<open>C4: a reply that is not JSON\<close>





subsection \<open>C3: fence handling\<close>

text \<open>
  C3, as the code has it. If the reply has a JSON-tagged marker and the block it opens is
  closed, the parse candidate is exactly the content between the first tagged marker and its
  closing marker, the commentary before and after being dropped, provided the text right
  after the closing marker does not go on with one or two backticks and \<^verbatim>\<open>json\<close> (which
  would make a later tagged marker overlap the closing one). Otherwise, if the reply has a
  plain marker and the block is closed, the candidate is the content between the first pair
  of plain markers. Otherwise, with no marker at all, it is the whole reply. In each case
  only the first block counts, whatever follows it.
\<close>

theorem fence_handling:
  "(first_fenced_block ''```json'' t = Some (h, c, f)
      \<and> \<not> prefix ''`json'' f \<and> \<not> prefix ''``json'' f \<longrightarrow> strip_fence t = Inr c)
   \<and> (\<not> py_in ''```json'' t \<and> first_fenced_block ''```'' t = Some (h, c, f)
      \<longrightarrow> strip_fence t = Inr c)
   \<and> (\<not> py_in ''```'' t \<longrightarrow> strip_fence t = Inr t)"
  using strip_fence_tagged_block strip_fence_plain_block strip_fence_none by blast

text \<open>
  C3 at work: a reply with two tagged blocks gives the content of the first; a reply with a
  plain block gives its content; a reply without markers is its own candidate.
\<close>

theorem fence_handling_witness:
  \<open>strip_fence two_block_reply = Inr ([CHR 0x0A] @ ''{"vendor_name": "Acme Corp"}'' @ [CHR 0x0A])
   \<and> strip_fence (''Result:'' @ [CHR 0x0A] @ ''```'' @ [CHR 0x0A] @ ''{"total": 45}'' @ [CHR 0x0A] @ ''```'' @ '' Done.'')
       = Inr ([CHR 0x0A] @ ''{"total": 45}'' @ [CHR 0x0A])
   \<and> strip_fence ''{"total": 45}'' = Inr ''{"total": 45}''\<close>
proof -
  let ?f1 = \<open>[CHR 0x0A] @ ''A second reading:'' @ [CHR 0x0A] @ ''```json'' @ [CHR 0x0A]
       @ ''{"vendor_name": "Other Ltd"}'' @ [CHR 0x0A] @ ''```''\<close>
  let ?c1 = \<open>[CHR 0x0A] @ ''{"vendor_name": "Acme Corp"}'' @ [CHR 0x0A]\<close>
  let ?t2 = \<open>''Result:'' @ [CHR 0x0A] @ ''```'' @ [CHR 0x0A] @ ''{"total": 45}'' @ [CHR 0x0A] @ ''```'' @ '' Done.''\<close>
  let ?c2 = \<open>[CHR 0x0A] @ ''{"total": 45}'' @ [CHR 0x0A]\<close>
  have a: "first_fenced_block ''```json'' two_block_reply = Some (''Here is the data:'' @ [CHR 0x0A], ?c1, ?f1)
      \<and> \<not> prefix ''`json'' ?f1 \<and> \<not> prefix ''``json'' ?f1"
    by code_simp
  have b: "\<not> py_in ''```json'' ?t2 \<and> first_fenced_block ''```'' ?t2 = Some (''Result:'' @ [CHR 0x0A], ?c2, '' Done.'')"
    by code_simp
  have c: \<open>\<not> py_in ''```'' ''{"total": 45}''\<close>
    by code_simp
  from a fence_handling[of two_block_reply "''Here is the data:'' @ [CHR 0x0A]" ?c1 ?f1]
  have 1: "strip_fence two_block_reply = Inr ?c1" by blast
  from b fence_handling[of ?t2 "''Result:'' @ [CHR 0x0A]" ?c2 "'' Done.''"]
  have 2: "strip_fence ?t2 = Inr ?c2" by blast
  from c fence_handling[of \<open>''{"total": 45}''\<close>]
  have 3: \<open>strip_fence ''{"total": 45}'' = Inr ''{"total": 45}''\<close> by blast
  from 1 2 3 show ?thesis by blast
qed

text \<open>
  C3 as stated fails: in this reply the first tagged block holds an empty object between two
  newlines, and the closing marker is followed by a backtick and \<^verbatim>\<open>json\<close>; the candidate
  of the code is not that content (it keeps the backtick).
\<close>

theorem fence_overlap_counterexample:
  \<open>first_fenced_block ''```json'' (''```json'' @ [CHR 0x0A] @ ''{}'' @ [CHR 0x0A] @ ''````json'')
     = Some ([], [CHR 0x0A] @ ''{}'' @ [CHR 0x0A], ''`json'')
   \<and> strip_fence (''```json'' @ [CHR 0x0A] @ ''{}'' @ [CHR 0x0A] @ ''````json'')
     \<noteq> Inr ([CHR 0x0A] @ ''{}'' @ [CHR 0x0A])\<close>
  by code_simp

subsection \<open>C2: round trip through a fenced reply\<close>

text \<open>
  C2, as the code has it. Take a record whose serialization the decoder reads back as the
  record, has no whitespace at its ends and holds no triple backtick. Wrap the
  serialization in a JSON-tagged fence, each marker on a line of its own, with commentary
  before and after. If the commentary before holds no JSON-tagged marker, and the commentary
  after does not start with one or two backticks and \<^verbatim>\<open>json\<close>, the analysis of that reply
  returns the record.
\<close>

theorem fenced_record_round_trip:
  assumes "str_truthy api"
    and "generate_content (build_prompt text_in) =
           Inr (Inr (before @ ''```json'' @ [CHR 0x0A] @ dumps record @ [CHR 0x0A] @ ''```'' @ after))"
    and "loads (dumps record) = Inr record"
    and "py_strip (dumps record) = dumps record"
    and "\<not> py_in ''```'' (dumps record)"
    and "\<not> py_in ''```json'' before"
    and "\<not> prefix ''`json'' after" and "\<not> prefix ''``json'' after"
  shows "fst (analyze_invoice_with_gemini loads generate_content api text_in) = Inr record"
proof -
  let ?raw = "before @ ''```json'' @ [CHR 0x0A] @ dumps record @ [CHR 0x0A] @ ''```'' @ after"
  have c: "strip_fence ?raw = Inr (CHR 0x0A # dumps record @ [CHR 0x0A])"
    using assms(6,5,7,8) by (rule fenced_reply_candidate)
  have "py_strip (CHR 0x0A # dumps record @ [CHR 0x0A]) = py_strip (dumps record)"
    by (rule py_strip_padded) (rule isspace_newline)+
  with assms(4) have s: "py_strip (CHR 0x0A # dumps record @ [CHR 0x0A]) = dumps record"
    by simp
  show ?thesis
    using analyze_reply[where loads = loads and generate_content = generate_content and api = api
        and text_in = text_in and raw = ?raw and c = "CHR 0x0A # dumps record @ [CHR 0x0A]", OF assms(1,2) c]
      assms(3) by (simp add: s)
qed

text \<open>C2 at work: the scenario's record, serialized by \<open>json_dumps\<close>, between two lines of commentary.\<close>

theorem fenced_record_round_trip_witness:
  "fst (analyze_invoice_with_gemini json_loads
          (replies ((''Here is the data:'' @ [CHR 0x0A]) @ ''```json'' @ [CHR 0x0A]
                    @ json_dumps acme_record @ [CHR 0x0A] @ ''```''
                    @ ([CHR 0x0A] @ ''Let me know if anything is missing.'')))
          (Some ''key'') ''Total: 45'') = Inr acme_record"
proof -
  let ?b = "''Here is the data:'' @ [CHR 0x0A]"
  let ?a = "[CHR 0x0A] @ ''Let me know if anything is missing.''"
  let ?raw = "?b @ ''```json'' @ [CHR 0x0A] @ json_dumps acme_record @ [CHR 0x0A] @ ''```'' @ ?a"
  have 1: "str_truthy (Some ''key'')" by (simp add: str_truthy_def)
  have 2: "replies ?raw (build_prompt ''Total: 45'') = Inr (Inr ?raw)" by (simp add: replies_def)
  have 3: "json_loads (json_dumps acme_record) = Inr acme_record" by code_simp
  have 4: "py_strip (json_dumps acme_record) = json_dumps acme_record" by code_simp
  have 5: "\<not> py_in ''```'' (json_dumps acme_record)" by code_simp
  have 6: "\<not> py_in ''```json'' ?b" by code_simp
  have 7: "\<not> prefix ''`json'' ?a" by simp
  have 8: "\<not> prefix ''``json'' ?a" by simp
  show ?thesis
    using fenced_record_round_trip[of "Some ''key''" "replies ?raw" "''Total: 45''" ?b json_dumps
        acme_record ?a json_loads, OF 1 2 3 4 5 6 7 8] .
qed

text \<open>
  C2 as stated fails: when the commentary before the block mentions the tagged marker, the
  same record in the same fence does not come back.
\<close>

theorem commentary_marker_counterexample:
  "fst (analyze_invoice_with_gemini json_loads
          (replies ((''The ```json block below holds the data.'' @ [CHR 0x0A]) @ ''```json'' @ [CHR 0x0A]
                    @ json_dumps acme_record @ [CHR 0x0A] @ ''```''
                    @ ([CHR 0x0A] @ ''Let me know if anything is missing.'')))
          (Some ''key'') ''Total: 45'') \<noteq> Inr acme_record"
  by code_simp

subsection \<open>C5: numeric fields that arrive as strings\<close>

text \<open>
  C5, as the code has it. When the reply's content decodes to an object, the analysis
  returns that object as decoded: a field that arrived as a JSON string is still that
  string in the result, whether or not its text reads as a number. Nothing is coerced and
  nothing is replaced by null; the reply is not a failure either.
\<close>

theorem string_fields_stay_strings:
  assumes "str_truthy api"
    and "generate_content (build_prompt text_in) = Inr (Inr raw)"
    and "strip_fence raw = Inr c"
    and "loads (py_strip c) = Inr (PDict kvs)"
    and "map_of kvs key = Some (PStr s)"
  shows "fst (analyze_invoice_with_gemini loads generate_content api text_in) = Inr (PDict kvs)
    \<and> and_then (fst (analyze_invoice_with_gemini loads generate_content api text_in))
          (\<lambda>result. py_get result key PNone) = Inr (PStr s)"
  using assms by (simp add: analyze_reply and_then_def py_get_def)

text \<open>C5 at work: \<^verbatim>\<open>total\<close> arrives as the string \<^verbatim>\<open>"123.45"\<close> and stays that string.\<close>

theorem string_fields_stay_strings_witness:
  \<open>fst (analyze_invoice_with_gemini json_loads (replies ''{"total": "123.45", "tax": "n/a"}'')
          (Some ''key'') ''Total: 123.45'')
     = Inr (PDict [(''total'', PStr ''123.45''), (''tax'', PStr ''n/a'')])
   \<and> and_then (fst (analyze_invoice_with_gemini json_loads (replies ''{"total": "123.45", "tax": "n/a"}'')
          (Some ''key'') ''Total: 123.45'')) (\<lambda>result. py_get result ''total'' PNone)
     = Inr (PStr ''123.45'')\<close>
proof -
  let ?raw = \<open>''{"total": "123.45", "tax": "n/a"}''\<close>
  let ?kvs = "[(''total'', PStr ''123.45''), (''tax'', PStr ''n/a'')]"
  have 1: "str_truthy (Some ''key'')" by (simp add: str_truthy_def)
  have 2: "replies ?raw (build_prompt ''Total: 123.45'') = Inr (Inr ?raw)" by (simp add: replies_def)
  have 3: "strip_fence ?raw = Inr ?raw" by code_simp
  have 4: "json_loads (py_strip ?raw) = Inr (PDict ?kvs)" by code_simp
  have 5: "map_of ?kvs ''total'' = Some (PStr ''123.45'')" by simp
  show ?thesis
    using string_fields_stay_strings[of "Some ''key''" "replies ?raw" "''Total: 123.45''" ?raw ?raw
        json_loads ?kvs "''total''" "''123.45''", OF 1 2 3 4 5] .
qed

text \<open>
  C5 as stated fails: in the result \<^verbatim>\<open>total\<close> is the string \<^verbatim>\<open>"123.45"\<close>, not a number, and
  \<^verbatim>\<open>tax\<close> is the string \<^verbatim>\<open>"n/a"\<close>, not null.
\<close>

theorem no_coercion_counterexample:
  \<open>and_then (fst (analyze_invoice_with_gemini json_loads (replies ''{"total": "123.45", "tax": "n/a"}'')
          (Some ''key'') ''Total: 123.45'')) (\<lambda>result. py_get result ''total'' PNone)
     = Inr (PStr ''123.45'')
   \<and> \<not> py_is_number (PStr ''123.45'')
   \<and> and_then (fst (analyze_invoice_with_gemini json_loads (replies ''{"total": "123.45", "tax": "n/a"}'')
          (Some ''key'') ''Total: 123.45'')) (\<lambda>result. py_get result ''tax'' PNone)
     = Inr (PStr ''n/a'')
   \<and> PStr ''n/a'' \<noteq> PNone\<close>
  by code_simp

subsection \<open>C6: the JSON export\<close>

text \<open>
  C6, as the code has it. When the reply's content decodes to an object and the page gets
  through its record display to the downloads (none of the statements of lines 128 to 143
  raises), the JSON export is the serialization of that very object, which has no key
  \<^verbatim>\<open>error\<close>: the export has one member for each key of the reply's object, in the reply's
  order, with its value (\<open>json_dumps_dict\<close>). No key of the schema is added and no other key
  is dropped. When a display statement raises, as for a total that arrives as a string
  (\<open>string_total_breaks_display\<close>), the page offers no export.
\<close>

theorem export_is_reply_object:
  assumes "str_truthy api"
    and "generate_content (build_prompt text_in) = Inr (Inr raw)"
    and "strip_fence raw = Inr c"
    and "loads (py_strip c) = Inr (PDict kvs)"
    and "show_result (PDict kvs) = Inr (RecordShown json_data file_name csv_data)"
  shows "and_then (fst (analyze_invoice_with_gemini loads generate_content api text_in)) show_result
       = Inr (RecordShown json_data file_name csv_data)
    \<and> json_data = json_dumps (PDict kvs)
    \<and> ''error'' \<notin> set (map fst kvs)"
proof -
  have r: "fst (analyze_invoice_with_gemini loads generate_content api text_in) = Inr (PDict kvs)"
    using assms(1-4) by (simp add: analyze_reply)
  from show_result_record_exports[OF assms(5)]
  have "json_data = json_dumps (PDict kvs)" and "''error'' \<notin> set (map fst kvs)"
    by (simp_all add: download_json_def py_contains_def)
  with r assms(5) show ?thesis by (simp add: and_then_def)
qed

text \<open>C6 at work: a reply with the keys \<^verbatim>\<open>vendor\<close> and \<^verbatim>\<open>total\<close>, which the page displays.\<close>

theorem export_is_reply_object_witness:
  \<open>and_then (fst (analyze_invoice_with_gemini json_loads (replies ''{"vendor": "Acme Corp", "total": 45}'')
        (Some ''key'') ''Total: 45'')) show_result
     = Inr (RecordShown (json_dumps (PDict [(''vendor'', PStr ''Acme Corp''), (''total'', PInt 45)]))
              ''invoice_data.json''
              (''date,vendor,total,category'' @ [CHR 0x0A] @ '',,45,''))\<close>
proof -
  let ?raw = \<open>''{"vendor": "Acme Corp", "total": 45}''\<close>
  let ?kvs = "[(''vendor'', PStr ''Acme Corp''), (''total'', PInt 45)]"
  let ?csv = "''date,vendor,total,category'' @ [CHR 0x0A] @ '',,45,''"
  have 1: "str_truthy (Some ''key'')" by (simp add: str_truthy_def)
  have 2: "replies ?raw (build_prompt ''Total: 45'') = Inr (Inr ?raw)" by (simp add: replies_def)
  have 3: "strip_fence ?raw = Inr ?raw" by code_simp
  have 4: "json_loads (py_strip ?raw) = Inr (PDict ?kvs)" by code_simp
  have 5: "show_result (PDict ?kvs) = Inr (RecordShown (json_dumps (PDict ?kvs)) ''invoice_data.json'' ?csv)"
    by code_simp
  show ?thesis
    using export_is_reply_object[of "Some ''key''" "replies ?raw" "''Total: 45''" ?raw ?raw
        json_loads ?kvs "json_dumps (PDict ?kvs)" "''invoice_data.json''" ?csv, OF 1 2 3 4 5] by blast
qed

text \<open>
  C6 as stated fails: for that reply the page gets to the downloads, and the JSON export has
  the member \<^verbatim>\<open>vendor\<close>, which the schema does not know, and no member \<^verbatim>\<open>vendor_name\<close>.
\<close>

theorem export_schema_counterexample:
  \<open>and_then (fst (analyze_invoice_with_gemini json_loads (replies ''{"vendor": "Acme Corp", "total": 45}'')
        (Some ''key'') ''Total: 45'')) show_result
     = Inr (RecordShown
              (''{'' @ [CHR 0x0A] @ ''  "vendor": "Acme Corp",'' @ [CHR 0x0A] @ ''  "total": 45'' @ [CHR 0x0A] @ ''}'')
              ''invoice_data.json''
              (''date,vendor,total,category'' @ [CHR 0x0A] @ '',,45,''))
   \<and> \<not> py_in ''vendor_name''
         (''{'' @ [CHR 0x0A] @ ''  "vendor": "Acme Corp",'' @ [CHR 0x0A] @ ''  "total": 45'' @ [CHR 0x0A] @ ''}'')\<close>
  by code_simp

subsection \<open>C7: the CSV export\<close>

text \<open>
  C7 at its failing input. The reply gives \<^verbatim>\<open>invoice_date\<close> as null, as the prompt asks for a
  field that is not found. The CSV data has the fixed header line, and its row starts with
  the text \<^verbatim>\<open>None\<close>, where the claim has an empty field. (The default of \<^verbatim>\<open>result.get\<close>
  covers a missing key only: \<open>csv_line_dict\<close>. The row of the scenario is \<open>scenario_csv\<close>. The
  page gets to the download at this reply: \<open>csv_null_page_reaches_export\<close>.)
\<close>

theorem csv_null_field_prints_None:
  \<open>and_then (fst (analyze_invoice_with_gemini json_loads
        (replies ''{"vendor_name": "Acme Corp", "invoice_date": null, "total": 45.00, "category_suggestion": "Office Supplies"}'')
        (Some ''key'') ''Total: 45'')) download_csv
     = Inr (''date,vendor,total,category'' @ [CHR 0x0A] @ ''None,Acme Corp,45.0,Office Supplies'')\<close>
  by code_simp

subsection \<open>C1: one record or one error\<close>

text \<open>
  C1 at its failing inputs. For the reply \<^verbatim>\<open>[]\<close> the analysis returns an empty list, and for
  the reply \<^verbatim>\<open>45\<close> the number 45: neither a dict with the fields of the schema nor an error
  value. The page script then fails on each with an exception that nothing handles, at
  \<^verbatim>\<open>result.get\<close> for the list and at the test for the \<^verbatim>\<open>error\<close> key for the number.
\<close>

theorem non_object_reply_is_neither:
  \<open>fst (analyze_invoice_with_gemini json_loads (replies ''[]'') (Some ''key'') ''Total: 45'')
     = Inr (PList [])
   \<and> show_result (PList [])
     = Inl (AttributeError, str_repr ''list'' @ '' object has no attribute '' @ str_repr ''get'')
   \<and> fst (analyze_invoice_with_gemini json_loads (replies ''45'') (Some ''key'') ''Total: 45'')
     = Inr (PInt 45)
   \<and> show_result (PInt 45)
     = Inl (TypeError, ''argument of type '' @ str_repr ''int'' @ '' is not iterable'')\<close>
  by code_simp

end
